theory Spec2Isabelle
  imports Main "HOL-Library.Sublist" "HOL-Library.Multiset"
begin

unbundle bit_operations_syntax

section \<open>Launch script generator of the ACRN configuration tools\<close>

text \<open>
  A shallow embedding of \<^verbatim>\<open>misc/config_tools/launch_config/launch_cfg_gen.py\<close>.
  Python integers are \<open>int\<close>, Python strings are \<open>string\<close>, a raised exception is the
  left injection of a sum type, and an object that the source mutates is passed in and
  returned updated.
\<close>

subsection \<open>Python values and exceptions\<close>

text \<open>
  A \<open>char\<close> stands for a code point below 256. The XML documents and the strings built
  from them are taken in that range.
\<close>

datatype py_error = IndexError | ValueError | TypeError | AttributeError | UnicodeDecodeError

text \<open>Running a step that may raise, and a \<^verbatim>\<open>for\<close> loop whose body may raise.\<close>

definition py_then :: "py_error + 'a \<Rightarrow> ('a \<Rightarrow> py_error + 'b) \<Rightarrow> py_error + 'b" where
  "py_then m f = (case m of Inl e \<Rightarrow> Inl e | Inr x \<Rightarrow> f x)"

fun for_each :: "('a \<Rightarrow> 's \<Rightarrow> py_error + 's) \<Rightarrow> 'a list \<Rightarrow> 's \<Rightarrow> py_error + 's" where
  "for_each body [] s = Inr s"
| "for_each body (x # xs) s =
     (case body x s of Inl e \<Rightarrow> Inl e | Inr s' \<Rightarrow> for_each body xs s')"

text \<open>\<^verbatim>\<open>s.startswith(k)\<close> and the substring test \<^verbatim>\<open>k in s\<close> on strings.\<close>

definition py_startswith :: "string \<Rightarrow> string \<Rightarrow> bool" where
  "py_startswith s k = (take (length k) s = k)"

fun py_in_str :: "string \<Rightarrow> string \<Rightarrow> bool" where
  "py_in_str k [] = (k = [])"
| "py_in_str k (c # cs) = (py_startswith (c # cs) k \<or> py_in_str k cs)"

text \<open>\<^verbatim>\<open>list(range(a, b))\<close>: the integers from \<open>a\<close> up to, and without, \<open>b\<close>.\<close>

definition py_range :: "int \<Rightarrow> int \<Rightarrow> int list" where
  "py_range a b = [a..b - 1]"

text \<open>
  \<^verbatim>\<open>str.strip()\<close> removes the white space of both ends; below 256 the white space
  characters of Python are 9 to 13, 28 to 32, 133 and 160.
\<close>

definition py_isspace :: "char \<Rightarrow> bool" where
  "py_isspace c = (of_char c \<in> {9, 10, 11, 12, 13, 28, 29, 30, 31, 32, 133, 160 :: nat})"

definition py_strip :: "string \<Rightarrow> string" where
  "py_strip s = rev (dropWhile py_isspace (rev (dropWhile py_isspace s)))"

text \<open>Formatting: \<^verbatim>\<open>{i}\<close>, \<^verbatim>\<open>{i:x}\<close>, \<^verbatim>\<open>{i:02x}\<close>, \<^verbatim>\<open>{i:3d}\<close>, \<^verbatim>\<open>{s:40s}\<close> and \<^verbatim>\<open>{v}\<close> of a text or \<^verbatim>\<open>None\<close>.\<close>

function py_digits :: "int \<Rightarrow> int \<Rightarrow> string" where
  "py_digits b n =
     (if b < 2 \<or> n < b then [''0123456789abcdef'' ! nat n]
      else py_digits b (n div b) @ [''0123456789abcdef'' ! nat (n mod b)])"
  by pat_completeness auto
termination
  by (relation "measure (\<lambda>(b, n). nat n)") (auto simp: int_div_less_self)

definition py_str_int :: "int \<Rightarrow> string" where
  "py_str_int i = (if i < 0 then CHR ''-'' # py_digits 10 (- i) else py_digits 10 i)"

definition py_hex_int :: "int \<Rightarrow> string" where
  "py_hex_int i = (if i < 0 then CHR ''-'' # py_digits 16 (- i) else py_digits 16 i)"

definition py_format_02x :: "int \<Rightarrow> string" where
  "py_format_02x i = (let s = py_hex_int i in replicate (2 - length s) CHR ''0'' @ s)"

definition py_format_3d :: "int \<Rightarrow> string" where
  "py_format_3d i = (let s = py_str_int i in replicate (3 - length s) CHR '' '' @ s)"

definition py_ljust :: "nat \<Rightarrow> string \<Rightarrow> string" where
  "py_ljust n s = s @ replicate (n - length s) CHR '' ''"

definition py_str_opt :: "string option \<Rightarrow> string" where
  "py_str_opt v = (case v of None \<Rightarrow> ''None'' | Some s \<Rightarrow> s)"

fun py_join :: "string \<Rightarrow> string list \<Rightarrow> string" where
  "py_join sep [] = []"
| "py_join sep [x] = x"
| "py_join sep (x # y # ys) = x @ sep @ py_join sep (y # ys)"

text \<open>
  \<^verbatim>\<open>int(s, base)\<close> for base 10 and 16: white space around the literal, a sign, for base 16
  a prefix \<^verbatim>\<open>0x\<close> or \<^verbatim>\<open>0X\<close> (one underscore may follow it), then digits with single
  underscores between them. \<open>None\<close> stands for \<^verbatim>\<open>ValueError\<close>. The white space that
  \<^verbatim>\<open>int\<close> skips is narrower than that of \<^verbatim>\<open>str.strip()\<close>: the characters 9 to 13 and 32,
  and 133 and 160, but not 28 to 31. In base 10 a literal of more than 4300 digits is
  refused (the default limit of the interpreter); base 16 has no limit.
\<close>

definition py_int_isspace :: "char \<Rightarrow> bool" where
  "py_int_isspace c = (of_char c \<in> {9, 10, 11, 12, 13, 32, 133, 160 :: nat})"

definition py_digit_value :: "int \<Rightarrow> char \<Rightarrow> int option" where
  "py_digit_value b c =
     (let n = of_char c :: nat;
          v = (if 48 \<le> n \<and> n \<le> 57 then Some (int n - 48)
               else if 97 \<le> n \<and> n \<le> 102 then Some (int n - 87)
               else if 65 \<le> n \<and> n \<le> 70 then Some (int n - 55)
               else None)
      in case v of None \<Rightarrow> None | Some d \<Rightarrow> if d < b then Some d else None)"

fun py_int_digits :: "int \<Rightarrow> int \<Rightarrow> string \<Rightarrow> int option" where
  "py_int_digits b acc [] = Some acc"
| "py_int_digits b acc (c # cs) =
     (if c = CHR ''_'' then
        (case cs of
           [] \<Rightarrow> None
         | d # ds \<Rightarrow>
             (case py_digit_value b d of
                None \<Rightarrow> None
              | Some v \<Rightarrow> py_int_digits b (acc * b + v) ds))
      else
        (case py_digit_value b c of
           None \<Rightarrow> None
         | Some v \<Rightarrow> py_int_digits b (acc * b + v) cs))"

definition py_int_literal :: "int \<Rightarrow> string \<Rightarrow> int option" where
  "py_int_literal b s =
     (case s of
        [] \<Rightarrow> None
      | c # cs \<Rightarrow>
          (case py_digit_value b c of None \<Rightarrow> None | Some v \<Rightarrow> py_int_digits b v cs))"

definition py_int :: "int \<Rightarrow> string \<Rightarrow> int option" where
  "py_int b s =
     (let t = rev (dropWhile py_int_isspace (rev (dropWhile py_int_isspace s)));
          neg = (t \<noteq> [] \<and> hd t = CHR ''-'');
          u = (if t \<noteq> [] \<and> (hd t = CHR ''-'' \<or> hd t = CHR ''+'') then tl t else t);
          v = (if b = 16 \<and> (py_startswith u ''0x'' \<or> py_startswith u ''0X'')
               then (let w = drop 2 u in if py_startswith w ''_'' then drop 1 w else w)
               else u)
      in if b = 10 \<and> int (length (filter (\<lambda>c. c \<noteq> CHR ''_'') v)) > 4300 then None
         else (case py_int_literal b v of
                 None \<Rightarrow> None
               | Some n \<Rightarrow> Some (if neg then - n else n)))"

text \<open>
  \<^verbatim>\<open>s.split(c)\<close>, \<^verbatim>\<open>s.split(c)[0]\<close> and \<^verbatim>\<open>s.split(c, maxsplit=1)\<close> for a separator of one
  character, and the two functions of \<^verbatim>\<open>os.path\<close> that the generator calls.
\<close>

fun py_split :: "char \<Rightarrow> string \<Rightarrow> string list" where
  "py_split c [] = [[]]"
| "py_split c (x # xs) =
     (if x = c then [] # py_split c xs
      else (case py_split c xs of
              [] \<Rightarrow> [[x]]
            | p # ps \<Rightarrow> (x # p) # ps))"

definition py_split_first :: "char \<Rightarrow> string \<Rightarrow> string" where
  "py_split_first c s = takeWhile (\<lambda>x. x \<noteq> c) s"

definition py_split_maxsplit1 :: "char \<Rightarrow> string \<Rightarrow> string list" where
  "py_split_maxsplit1 c s =
     (if c \<in> set s then [takeWhile (\<lambda>x. x \<noteq> c) s, tl (dropWhile (\<lambda>x. x \<noteq> c) s)]
      else [s])"

definition os_path_basename :: "string \<Rightarrow> string" where
  "os_path_basename p = rev (takeWhile (\<lambda>x. x \<noteq> CHR ''/'') (rev p))"

definition os_path_join :: "string \<Rightarrow> string \<Rightarrow> string" where
  "os_path_join a b =
     (if py_startswith b ''/'' then b
      else if a = [] \<or> last a = CHR ''/'' then a @ b
      else a @ ''/'' @ b)"

text \<open>A \<^verbatim>\<open>dict\<close> built from pairs: keys in the order of their first insertion, last value.\<close>

fun py_dict_set :: "('k \<times> 'v) list \<Rightarrow> 'k \<Rightarrow> 'v \<Rightarrow> ('k \<times> 'v) list" where
  "py_dict_set [] k v = [(k, v)]"
| "py_dict_set ((k', v') # d) k v =
     (if k' = k then (k, v) # d else (k', v') # py_dict_set d k v)"

definition py_dict :: "('k \<times> 'v) list \<Rightarrow> ('k \<times> 'v) list" where
  "py_dict pairs = fold (\<lambda>(k, v) d. py_dict_set d k v) pairs []"

subsection \<open>The board document\<close>

text \<open>
  The documents are trees of the XML library; the generator reads them only through path
  queries. Each record below holds, for one kind of node, the results of the queries that
  the source evaluates on it, in document order. A missing text or attribute is \<open>None\<close>.

  A \<^verbatim>\<open>device\<close> node under a \<^verbatim>\<open>bus\<close> node: the \<^verbatim>\<open>type\<close> and \<^verbatim>\<open>address\<close> attributes of the bus,
  its own \<^verbatim>\<open>address\<close> attribute, and the first text of its \<^verbatim>\<open>vendor\<close> and \<^verbatim>\<open>class\<close>
  children.
\<close>

record device_etree =
  bus_type :: "string option"
  bus_address :: "string option"
  address :: "string option"
  vendor_id :: "string option"
  class_code :: "string option"

text \<open>
  A \<^verbatim>\<open>thread\<close> node below \<^verbatim>\<open>processors\<close>: the texts of its \<^verbatim>\<open>cpu_id\<close> children and the texts
  of its \<^verbatim>\<open>apic_id\<close> children.
\<close>

record thread_etree =
  thread_cpu_ids :: "string list"
  thread_apic_ids :: "string list"

record board_etree =
  threads :: "thread_etree list"
  pci_devices :: "device_etree list"

subsection \<open>The scenario document\<close>

text \<open>
  An \<^verbatim>\<open>IVSHMEM_REGION\<close> node: the values of its \<^verbatim>\<open>PROVIDED_BY\<close> children and of the
  \<^verbatim>\<open>VM_NAME\<close> nodes below it, the first text of a \<^verbatim>\<open>VBDF\<close> node below it, and what
  \<^verbatim>\<open>find('NAME').text\<close> and \<^verbatim>\<open>find('IVSHMEM_SIZE').text\<close> give: \<open>None\<close> when there is no
  such child (reading \<^verbatim>\<open>.text\<close> then raises \<^verbatim>\<open>AttributeError\<close>), \<open>Some None\<close> for a child
  without text.
\<close>

record ivshmem_region =
  region_provided_by :: "string list"
  region_vm_names :: "string list"
  region_vbdf :: "string option"
  region_name :: "string option option"
  region_size :: "string option option"

record vuart_endpoint =
  endpoint_vm_names :: "string list"
  endpoint_vbdfs :: "string list"

record vuart_connection =
  connection_type :: "string option"
  connection_endpoints :: "vuart_endpoint list"

text \<open>
  The \<^verbatim>\<open>hv\<close> node: the first \<^verbatim>\<open>SCHEDULER\<close> text below it, and the \<^verbatim>\<open>vuart_connection\<close>
  nodes of its document (the query on them starts at the root).
\<close>

record hv_scenario =
  hv_scheduler :: "string option"
  hv_vuart_connections :: "vuart_connection list"

record virtio_input =
  input_backend_device_file :: "string option"
  input_id :: "string option"

record virtio_console =
  console_use_type :: "string option"
  console_backend_type :: "string option"
  console_output_file_path :: "string option"
  console_tty_device_path :: "string option"
  console_sock_file_path :: "string option"

record virtio_network =
  network_virtio_framework :: "string option"
  network_interface_name :: "string option"

record gpu_display =
  display_window_dimensions :: "string option"
  display_horizontal_offset :: "string option"
  display_vertical_offset :: "string option"
  display_monitor_id :: "string option"

record virtio_gpu =
  gpu_display_type :: "string option"
  gpu_displays :: "gpu_display list"

text \<open>
  A \<^verbatim>\<open>vm\<close> node. \<open>vm_os_types\<close> and \<open>vm_ptm\<close> are all texts of the \<^verbatim>\<open>os_type\<close> and \<^verbatim>\<open>PTM\<close>
  nodes below it; \<open>vm_pcpu_ids\<close>, \<open>vm_usb_xhci\<close>, \<open>vm_virtio_blocks\<close>, \<open>vm_vsocks\<close> are the
  non-empty texts that their queries select; \<open>vm_pci_devs\<close> the texts of the children of
  \<^verbatim>\<open>pci_devs\<close>; \<open>vm_ivshmem_regions\<close> the \<^verbatim>\<open>IVSHMEM_REGION\<close> nodes of its document. The
  other fields are first texts.
\<close>

record vm_scenario =
  vm_id :: "string option"
  vm_name :: "string option"
  vm_os_types :: "string list"
  vm_type :: "string option"
  vm_ptm :: "string list"
  vm_pcpu_ids :: "string list"
  vm_memory_size :: "string option"
  vm_vbootloader :: "string option"
  vm_vuart0 :: "string option"
  vm_console_vuart :: "string option"
  vm_lapic_passthrough :: "string option"
  vm_ivshmem_regions :: "ivshmem_region list"
  vm_usb_xhci :: "string list"
  vm_virtio_inputs :: "virtio_input list"
  vm_virtio_consoles :: "virtio_console list"
  vm_virtio_networks :: "virtio_network list"
  vm_virtio_blocks :: "string list"
  vm_virtio_gpus :: "virtio_gpu list"
  vm_vsocks :: "string list"
  vm_pci_devs :: "string list"

text \<open>
  The scenario document as \<^verbatim>\<open>main\<close> reads it: the \<^verbatim>\<open>id\<close> attribute and the name of the
  first service VM, the \<^verbatim>\<open>hv\<close> node, the post-launched VMs and the \<^verbatim>\<open>pcpu_id\<close> texts of the
  pre-launched VMs.
\<close>

record scenario_etree =
  service_vm_id :: "string option"
  service_vm_name :: "string option"
  hv_scenario_etree :: "hv_scenario option"
  post_vms :: "vm_scenario list"
  pre_launched_pcpu_ids :: "string list"

subsection \<open>\<^verbatim>\<open>LaunchScript.VirtualBDFAllocator\<close>\<close>

text \<open>
  The allocator's only field is \<^verbatim>\<open>_free_slots\<close>, a list of integers. A slot handed to
  \<^verbatim>\<open>remove_virtual_bdf\<close> is whatever the caller passed as \<^verbatim>\<open>vbdf\<close>: an integer (a slot
  parsed by \<^verbatim>\<open>get_slot_by_vbdf\<close>) or a string (\<^verbatim>\<open>"1:0"\<close>, \<^verbatim>\<open>"0:0"\<close>).
\<close>

datatype vbdf_value = VInt int | VStr string

definition VirtualBDFAllocator_init :: "int list" where
  "VirtualBDFAllocator_init = py_range 3 30"

text \<open>The two early returns of \<^verbatim>\<open>get_virtual_bdf\<close>, which hand out slot 2.\<close>

definition is_vga_device :: "device_etree option \<Rightarrow> bool" where
  "is_vga_device device =
     (case device of None \<Rightarrow> False | Some d \<Rightarrow> class_code d = Some ''0x030000'')"

definition has_igd_option :: "string option \<Rightarrow> bool" where
  "has_igd_option options =
     (case options of None \<Rightarrow> False | Some s \<Rightarrow> s \<noteq> [] \<and> py_in_str ''igd'' s)"

text \<open>
  \<^verbatim>\<open>get_virtual_bdf\<close> returns the slot and the updated free list;
  \<^verbatim>\<open>self._free_slots.pop(0)\<close> on an empty list raises \<^verbatim>\<open>IndexError\<close>.
\<close>

definition get_virtual_bdf ::
  "int list \<Rightarrow> device_etree option \<Rightarrow> string option \<Rightarrow> py_error + (int \<times> int list)" where
  "get_virtual_bdf free_slots device options =
     (if is_vga_device device then Inr (2, free_slots)
      else if has_igd_option options then Inr (2, free_slots)
      else (case free_slots of
              [] \<Rightarrow> Inl IndexError
            | next_vbdf # rest \<Rightarrow> Inr (next_vbdf, rest)))"

text \<open>
  \<^verbatim>\<open>remove_virtual_bdf\<close>: a string is never a member of a list of integers;
  \<^verbatim>\<open>list.remove\<close> deletes the first occurrence.
\<close>

fun remove_virtual_bdf :: "int list \<Rightarrow> vbdf_value \<Rightarrow> int list" where
  "remove_virtual_bdf free_slots (VInt slot) =
     (if slot \<in> set free_slots then remove1 slot free_slots else free_slots)"
| "remove_virtual_bdf free_slots (VStr s) = free_slots"

text \<open>
  A sequence of calls on one allocator. \<open>run_calls\<close> returns the final free list and the
  slots that the calls drew from the pool, oldest first. A call that raises leaves the
  list as it was and draws nothing; a call that takes an early return draws nothing.
\<close>

datatype allocator_call =
  Allocate "device_etree option" "string option"
| Release vbdf_value

fun run_call :: "int list \<Rightarrow> allocator_call \<Rightarrow> int list \<times> int list" where
  "run_call free_slots (Allocate device options) =
     (case get_virtual_bdf free_slots device options of
        Inl e \<Rightarrow> (free_slots, [])
      | Inr (slot, free_slots') \<Rightarrow>
          (free_slots',
           if is_vga_device device \<or> has_igd_option options then [] else [slot]))"
| "run_call free_slots (Release slot) = (remove_virtual_bdf free_slots slot, [])"

fun run_calls :: "int list \<Rightarrow> allocator_call list \<Rightarrow> int list \<times> int list" where
  "run_calls free_slots [] = (free_slots, [])"
| "run_calls free_slots (c # cs) =
     (case run_call free_slots c of
        (free_slots', drawn) \<Rightarrow>
          (case run_calls free_slots' cs of
             (free_slots'', drawn') \<Rightarrow> (free_slots'', drawn @ drawn')))"

definition pool_after :: "allocator_call list \<Rightarrow> int list" where
  "pool_after cs = fst (run_calls VirtualBDFAllocator_init cs)"

definition drawn_by :: "allocator_call list \<Rightarrow> int list" where
  "drawn_by cs = snd (run_calls VirtualBDFAllocator_init cs)"

subsection \<open>\<^verbatim>\<open>LaunchScript.PassThruDeviceOptions\<close>\<close>

text \<open>
  The table \<^verbatim>\<open>passthru_device_options\<close>: a prefix of the class code, the query on the VM's
  scenario (does a \<^verbatim>\<open>PTM\<close> node have the text \<^verbatim>\<open>y\<close>, does an \<^verbatim>\<open>os_type\<close> node have the text
  \<^verbatim>\<open>Windows OS\<close>), and the options to add. \<^verbatim>\<open>get_option\<close> goes through it in the order of
  the \<^verbatim>\<open>dict\<close>.
\<close>

definition passthru_device_options :: "(string \<times> (vm_scenario \<Rightarrow> bool) \<times> string list) list" where
  "passthru_device_options =
     [(''0x0200'', (\<lambda>vm. ''y'' \<in> set (vm_ptm vm)), [''enable_ptm'']),
      (''0x0c0330'', (\<lambda>vm. ''Windows OS'' \<in> set (vm_os_types vm)), [''d3hot_reset''])]"

definition get_option :: "device_etree option \<Rightarrow> vm_scenario \<Rightarrow> string" where
  "get_option device vm_scenario_etree =
     py_join '',''
       (case device of
          None \<Rightarrow> []
        | Some d \<Rightarrow>
            (let code = (case class_code d of None \<Rightarrow> [] | Some c \<Rightarrow> c)
             in concat (map (\<lambda>(k, query, opts).
                               if py_startswith code k \<and> query vm_scenario_etree then opts
                               else [])
                          passthru_device_options)))"

subsection \<open>\<^verbatim>\<open>LaunchScript\<close>\<close>

text \<open>
  The fields of the class; \<open>free_slots\<close> is the state of its \<^verbatim>\<open>_vbdf_allocator\<close>. The
  descriptors and the CPU table are dictionaries, kept as lists of pairs in insertion
  order.
\<close>

record launch_script =
  script_board_etree :: board_etree
  script_vm_scenario_etree :: vm_scenario
  script_vm_name :: string
  vm_descriptors :: "(string \<times> string) list"
  init_commands :: "string list"
  cpu_dict :: "(int \<times> int option) list"
  dm_parameters :: "string list"
  deinit_commands :: "string list"
  free_slots :: "int list"

definition LaunchScript_init :: "board_etree \<Rightarrow> string \<Rightarrow> vm_scenario \<Rightarrow> launch_script" where
  "LaunchScript_init board name vm_scenario_etree =
     \<lparr>script_board_etree = board, script_vm_scenario_etree = vm_scenario_etree,
      script_vm_name = name, vm_descriptors = [], init_commands = [], cpu_dict = [],
      dm_parameters = [], deinit_commands = [], free_slots = VirtualBDFAllocator_init\<rparr>"

definition add_vm_descriptor :: "launch_script \<Rightarrow> string \<Rightarrow> string \<Rightarrow> launch_script" where
  "add_vm_descriptor s name val = s\<lparr>vm_descriptors := py_dict_set (vm_descriptors s) name val\<rparr>"

definition add_sos_cpu_dict :: "launch_script \<Rightarrow> (int \<times> int option) list \<Rightarrow> launch_script" where
  "add_sos_cpu_dict s cpu_and_lapic_id_list = s\<lparr>cpu_dict := py_dict cpu_and_lapic_id_list\<rparr>"

definition add_init_command :: "launch_script \<Rightarrow> string \<Rightarrow> launch_script" where
  "add_init_command s command =
     (if command \<notin> set (init_commands s) then s\<lparr>init_commands := init_commands s @ [command]\<rparr>
      else s)"

definition add_deinit_command :: "launch_script \<Rightarrow> string \<Rightarrow> launch_script" where
  "add_deinit_command s command =
     (if command \<notin> set (deinit_commands s)
      then s\<lparr>deinit_commands := deinit_commands s @ [command]\<rparr>
      else s)"

definition add_plain_dm_parameter :: "launch_script \<Rightarrow> string \<Rightarrow> launch_script" where
  "add_plain_dm_parameter s opt =
     (if opt \<notin> set (dm_parameters s) then s\<lparr>dm_parameters := dm_parameters s @ [opt]\<rparr>
      else s)"

text \<open>
  The text that \<^verbatim>\<open>add_dynamic_dm_parameter\<close> builds: the command padded to 40 characters, a
  space and the options, stripped, between two backquotes (character \<open>0x60\<close>).
\<close>

definition dynamic_dm_parameter :: "string \<Rightarrow> string \<Rightarrow> string" where
  "dynamic_dm_parameter cmd opt =
     [CHR 0x60] @ py_strip (py_ljust 40 cmd @ '' '' @ opt) @ [CHR 0x60]"

definition add_dynamic_dm_parameter :: "launch_script \<Rightarrow> string \<Rightarrow> string \<Rightarrow> launch_script" where
  "add_dynamic_dm_parameter s cmd opt =
     (let full_opt = dynamic_dm_parameter cmd opt
      in if full_opt \<notin> set (dm_parameters s)
         then s\<lparr>dm_parameters := dm_parameters s @ [full_opt]\<rparr>
         else s)"

definition has_dm_parameter :: "launch_script \<Rightarrow> (string \<Rightarrow> bool) \<Rightarrow> bool" where
  "has_dm_parameter s fn = (filter fn (dm_parameters s) \<noteq> [])"

text \<open>\<^verbatim>\<open>add_virtual_device\<close>; \<^verbatim>\<open>f"{vbdf}"\<close> prints an integer in decimal and a string as it is.\<close>

fun vbdf_str :: "vbdf_value \<Rightarrow> string" where
  "vbdf_str (VInt i) = py_str_int i"
| "vbdf_str (VStr s) = s"

definition virtual_device_parameter :: "string \<Rightarrow> string \<Rightarrow> string \<Rightarrow> string" where
  "virtual_device_parameter vbdf kind options =
     dynamic_dm_parameter ''add_virtual_device'' (vbdf @ '' '' @ kind @ '' '' @ options)"

definition add_virtual_device ::
  "launch_script \<Rightarrow> string \<Rightarrow> vbdf_value option \<Rightarrow> string \<Rightarrow> py_error + launch_script" where
  "add_virtual_device s kind vbdf options =
     (let s1 = (if py_in_str ''virtio'' kind
                   \<and> vm_type (script_vm_scenario_etree s) = Some ''RTVM''
                then add_plain_dm_parameter s ''--virtio_poll 1000000''
                else s)
      in case vbdf of
           None \<Rightarrow>
             (case get_virtual_bdf (free_slots s1) None None of
                Inl e \<Rightarrow> Inl e
              | Inr (slot, rest) \<Rightarrow>
                  Inr (add_dynamic_dm_parameter (s1\<lparr>free_slots := rest\<rparr>)
                         ''add_virtual_device''
                         (py_str_int slot @ '' '' @ kind @ '' '' @ options)))
         | Some v \<Rightarrow>
             Inr (add_dynamic_dm_parameter
                    (s1\<lparr>free_slots := remove_virtual_bdf (free_slots s1) v\<rparr>)
                    ''add_virtual_device''
                    (vbdf_str v @ '' '' @ kind @ '' '' @ options)))"

text \<open>
  \<^verbatim>\<open>add_passthru_device\<close>. The query for the device node selects the first \<^verbatim>\<open>device\<close> whose
  bus has the type \<^verbatim>\<open>pci\<close> and the address \<^verbatim>\<open>0x{bus:x}\<close> and whose own address is
  \<^verbatim>\<open>0x{(dev << 16) | fun:x}\<close>.
\<close>

definition passthru_device_etree :: "board_etree \<Rightarrow> int \<Rightarrow> int \<Rightarrow> int \<Rightarrow> device_etree option" where
  "passthru_device_etree board bus dev fn =
     find (\<lambda>d. bus_type d = Some ''pci''
              \<and> bus_address d = Some (''0x'' @ py_hex_int bus)
              \<and> address d = Some (''0x'' @ py_hex_int (push_bit 16 dev OR fn)))
       (pci_devices board)"

definition passthru_options :: "launch_script \<Rightarrow> int \<Rightarrow> int \<Rightarrow> int \<Rightarrow> string \<Rightarrow> string" where
  "passthru_options s bus dev fn options =
     (if options = []
      then get_option (passthru_device_etree (script_board_etree s) bus dev fn)
             (script_vm_scenario_etree s)
      else options)"

text \<open>The slot that \<^verbatim>\<open>add_passthru_device\<close> resolves for the device: its \<^verbatim>\<open>vbdf\<close>.\<close>

definition passthru_vbdf ::
  "launch_script \<Rightarrow> int \<Rightarrow> int \<Rightarrow> int \<Rightarrow> string \<Rightarrow> py_error + (int \<times> int list)" where
  "passthru_vbdf s bus dev fn options =
     get_virtual_bdf (free_slots s) (passthru_device_etree (script_board_etree s) bus dev fn)
       (Some (passthru_options s bus dev fn options))"

definition passthru_parameter :: "int \<Rightarrow> int \<Rightarrow> int \<Rightarrow> int \<Rightarrow> string \<Rightarrow> string" where
  "passthru_parameter vbdf bus dev fn options =
     dynamic_dm_parameter ''add_passthrough_device''
       (py_str_int vbdf @ '' 0000:'' @ py_format_02x bus @ '':'' @ py_format_02x dev @ ''.''
          @ py_str_int fn @ '' '' @ options)"

definition storm_monitor_parameter :: string where
  "storm_monitor_parameter = dynamic_dm_parameter ''add_interrupt_storm_monitor'' ''10000 10 1 100''"

definition add_passthru_device ::
  "launch_script \<Rightarrow> int \<Rightarrow> int \<Rightarrow> int \<Rightarrow> string \<Rightarrow> py_error + launch_script" where
  "add_passthru_device s bus dev fn options =
     (let options' = passthru_options s bus dev fn options
      in case passthru_vbdf s bus dev fn options of
           Inl e \<Rightarrow> Inl e
         | Inr (vbdf, rest) \<Rightarrow>
             (let s1 = add_dynamic_dm_parameter (s\<lparr>free_slots := rest\<rparr>)
                         ''add_passthrough_device''
                         (py_str_int vbdf @ '' 0000:'' @ py_format_02x bus @ '':''
                            @ py_format_02x dev @ ''.'' @ py_str_int fn @ '' '' @ options')
              in Inr (if vbdf \<noteq> 2
                      then add_dynamic_dm_parameter s1 ''add_interrupt_storm_monitor''
                             ''10000 10 1 100''
                      else s1)))"

subsection \<open>\<^verbatim>\<open>cpu_id_to_lapic_id\<close> and \<^verbatim>\<open>get_slot_by_vbdf\<close>\<close>

text \<open>
  \<^verbatim>\<open>cpu_id_to_lapic_id\<close> takes the CPU and the name of the VM as the texts that its format
  strings print. The query compares the \<^verbatim>\<open>cpu_id\<close> children of every thread with the
  text of the CPU and returns the first \<^verbatim>\<open>apic_id\<close> text of the threads that match; the
  CPU's text stands between apostrophes in the query, so the model covers the texts
  without an apostrophe. The function returns the identifier, or \<open>None\<close> and logs a
  warning; both are returned here, the warnings as a list. \<^verbatim>\<open>int(lapic_id, 16)\<close> raises
  \<^verbatim>\<open>ValueError\<close> on a text that is not a hexadecimal literal.
\<close>

definition lapic_id_text :: "board_etree \<Rightarrow> string \<Rightarrow> string option" where
  "lapic_id_text board cpu =
     (case concat (map thread_apic_ids
                     (filter (\<lambda>t. cpu \<in> set (thread_cpu_ids t)) (threads board))) of
        [] \<Rightarrow> None
      | lapic_id # _ \<Rightarrow> Some lapic_id)"

definition cpu_not_defined_warning :: "string \<Rightarrow> string \<Rightarrow> string" where
  "cpu_not_defined_warning name cpu =
     ''CPU '' @ cpu @ '' is not defined in the board XML, so it can'' @ [CHR 0x27]
       @ ''t be available to VM '' @ name"

definition cpu_id_to_lapic_id ::
  "board_etree \<Rightarrow> string \<Rightarrow> string \<Rightarrow> py_error + (int option \<times> string list)" where
  "cpu_id_to_lapic_id board name cpu =
     (case lapic_id_text board cpu of
        Some lapic_id \<Rightarrow>
          (case py_int 16 lapic_id of
             None \<Rightarrow> Inl ValueError
           | Some i \<Rightarrow> Inr (Some i, []))
      | None \<Rightarrow> Inr (None, [cpu_not_defined_warning name cpu]))"

text \<open>
  The list comprehension \<^verbatim>\<open>[cpu_id_to_lapic_id(board_etree, vm_name, cpu_id) for cpu_id in
  cpus]\<close>: the results in the order of the CPUs, with the warnings logged on the way.
\<close>

fun cpu_ids_to_lapic_ids ::
  "board_etree \<Rightarrow> string \<Rightarrow> string list \<Rightarrow> py_error + (int option list \<times> string list)" where
  "cpu_ids_to_lapic_ids board name [] = Inr ([], [])"
| "cpu_ids_to_lapic_ids board name (cpu # cpus) =
     (case cpu_id_to_lapic_id board name cpu of
        Inl e \<Rightarrow> Inl e
      | Inr (x, w) \<Rightarrow>
          (case cpu_ids_to_lapic_ids board name cpus of
             Inl e \<Rightarrow> Inl e
           | Inr (xs, ws) \<Rightarrow> Inr (x # xs, w @ ws)))"

text \<open>
  \<^verbatim>\<open>get_slot_by_vbdf\<close>: \<^verbatim>\<open>vbdf.split(":")[1]\<close> raises \<^verbatim>\<open>IndexError\<close> on a text without a
  colon.
\<close>

definition get_slot_by_vbdf :: "string option \<Rightarrow> py_error + int option" where
  "get_slot_by_vbdf vbdf =
     (case vbdf of
        None \<Rightarrow> Inr None
      | Some v \<Rightarrow>
          (case py_split CHR '':'' v of
             a # b # rest \<Rightarrow>
               (case py_int 16 (py_split_first CHR ''.'' b) of
                  None \<Rightarrow> Inl ValueError
                | Some i \<Rightarrow> Inr (Some i))
           | _ \<Rightarrow> Inl IndexError))"

subsection \<open>The pattern of a passthrough entry\<close>

text \<open>
  \<^verbatim>\<open>re.compile("([0-9a-f]{2}):([0-1][0-9a-f]).([0-7])").match(text)\<close> matches at the start
  of the text; the dot of the pattern stands for any character but a line feed. The
  result is the three groups.
\<close>

definition is_lower_hex :: "char \<Rightarrow> bool" where
  "is_lower_hex c = (let n = of_char c :: nat in (48 \<le> n \<and> n \<le> 57) \<or> (97 \<le> n \<and> n \<le> 102))"

definition is_octal :: "char \<Rightarrow> bool" where
  "is_octal c = (let n = of_char c :: nat in 48 \<le> n \<and> n \<le> 55)"

fun bdf_regex_match :: "string \<Rightarrow> (string \<times> string \<times> string) option" where
  "bdf_regex_match (b1 # b2 # colon # d1 # d2 # dot # f # rest) =
     (if is_lower_hex b1 \<and> is_lower_hex b2 \<and> colon = CHR '':''
         \<and> (d1 = CHR ''0'' \<or> d1 = CHR ''1'') \<and> is_lower_hex d2
         \<and> dot \<noteq> CHR 0x0A \<and> is_octal f
      then Some ([b1, b2], [d1, d2], [f])
      else None)"
| "bdf_regex_match text = None"

text \<open>
  The body of the loop over the passthrough entries: an entry that does not match is
  skipped by \<^verbatim>\<open>continue\<close>; the groups of one that matches are read in base 16.
\<close>

definition passthru_entry :: "string \<Rightarrow> launch_script \<Rightarrow> py_error + launch_script" where
  "passthru_entry passthru_device s =
     (case bdf_regex_match passthru_device of
        None \<Rightarrow> Inr s
      | Some (g1, g2, g3) \<Rightarrow>
          (case (py_int 16 g1, py_int 16 g2, py_int 16 g3) of
             (Some bus, Some dev, Some func) \<Rightarrow> add_passthru_device s bus dev func []
           | _ \<Rightarrow> Inl ValueError))"

subsection \<open>\<^verbatim>\<open>generate_for_one_vm\<close>\<close>

definition first_text :: "string list \<Rightarrow> string option" where
  "first_text xs = (case xs of [] \<Rightarrow> None | x # _ \<Rightarrow> Some x)"

definition quoted :: "string \<Rightarrow> string" where
  "quoted s = [CHR 0x27] @ s @ [CHR 0x27]"

text \<open>
  The CPUs of the VM: \<^verbatim>\<open>set(...)\<close> keeps one of each text. The order in which Python goes
  through a set is not fixed; the model takes the order of \<open>remdups\<close>. The identifiers are
  sorted before they are printed, so only the order of the warnings depends on it.
\<close>

definition add_cpus ::
  "board_etree \<Rightarrow> string \<Rightarrow> string list \<Rightarrow> launch_script \<Rightarrow> py_error + (launch_script \<times> string list)"
  where
  "add_cpus board name pcpu_ids s =
     (let cpus = remdups pcpu_ids
      in case cpu_ids_to_lapic_ids board name cpus of
           Inl e \<Rightarrow> Inl e
         | Inr (xs, warnings) \<Rightarrow>
             (let lapic_ids = map the (filter (\<lambda>x. x \<noteq> None) xs)
              in Inr (if lapic_ids \<noteq> []
                      then add_dynamic_dm_parameter s ''add_cpus''
                             (py_join '' '' (map py_str_int (sort lapic_ids)))
                      else s,
                      warnings)))"

text \<open>
  \<^verbatim>\<open>eval_xpath(vm_scenario_etree, "//SSRAM_ENABLED")\<close> is a node of the document or
  \<^verbatim>\<open>None\<close>, never a string: its comparison with \<^verbatim>\<open>"y"\<close> is false.
\<close>

definition ssram_enabled_is_y :: bool where
  "ssram_enabled_is_y = False"

text \<open>
  The two loops over the shared memory regions; \<open>backend\<close> is \<^verbatim>\<open>dm:/\<close> or \<^verbatim>\<open>hv:/\<close>. The
  queries for the regions and for the vuart connections of the VM compare with the name
  of the VM, which stands between apostrophes in the query: the model covers the names
  without an apostrophe.
\<close>

definition ivshmem_device ::
  "string \<Rightarrow> ivshmem_region \<Rightarrow> launch_script \<Rightarrow> py_error + launch_script" where
  "ivshmem_device backend ivshmem s =
     (case get_slot_by_vbdf (region_vbdf ivshmem) of
        Inl e \<Rightarrow> Inl e
      | Inr slot \<Rightarrow>
          (case (region_name ivshmem, region_size ivshmem) of
             (Some region_name_text, Some region_size_text) \<Rightarrow>
               add_virtual_device s ''ivshmem'' (map_option VInt slot)
                 (backend @ py_str_opt region_name_text @ '','' @ py_str_opt region_size_text)
           | _ \<Rightarrow> Inl AttributeError))"

definition ivshmem_regions_of :: "string \<Rightarrow> string \<Rightarrow> vm_scenario \<Rightarrow> ivshmem_region list" where
  "ivshmem_regions_of provider name vm =
     filter (\<lambda>r. provider \<in> set (region_provided_by r) \<and> name \<in> set (region_vm_names r))
       (vm_ivshmem_regions vm)"

text \<open>The loop over the vuart connections of the VM, numbered from 1.\<close>

definition vuart_device ::
  "string \<Rightarrow> (nat \<times> vuart_connection) \<Rightarrow> launch_script \<Rightarrow> py_error + launch_script" where
  "vuart_device name numbered s =
     (case numbered of
        (idx, conn) \<Rightarrow>
          (if connection_type conn = Some ''pci'' then
             (case get_slot_by_vbdf
                     (first_text (concat (map endpoint_vbdfs
                        (filter (\<lambda>e. name \<in> set (endpoint_vm_names e))
                           (connection_endpoints conn))))) of
                Inl e \<Rightarrow> Inl e
              | Inr slot \<Rightarrow>
                  add_virtual_device s ''uart'' (map_option VInt slot)
                    (''vuart_idx:'' @ py_str_int (int idx)))
           else Inr s))"

definition vuart_connections_of :: "string \<Rightarrow> hv_scenario \<Rightarrow> (nat \<times> vuart_connection) list" where
  "vuart_connections_of name hv =
     (let conns = filter (\<lambda>c. \<exists>e \<in> set (connection_endpoints c). name \<in> set (endpoint_vm_names e))
                    (hv_vuart_connections hv)
      in zip [1..<Suc (length conns)] conns)"

definition usb_xhci_device :: "string \<Rightarrow> launch_script \<Rightarrow> py_error + launch_script" where
  "usb_xhci_device usb_xhci s =
     add_virtual_device s ''xhci'' None (py_split_first CHR '' '' usb_xhci)"

definition virtio_input_device :: "virtio_input \<Rightarrow> launch_script \<Rightarrow> py_error + launch_script" where
  "virtio_input_device i s =
     (case (input_backend_device_file i, input_id i) of
        (Some backend_device_file, Some unique_identifier) \<Rightarrow>
          add_virtual_device s ''virtio-input'' None
            (backend_device_file @ '',id:'' @ unique_identifier)
      | (Some backend_device_file, None) \<Rightarrow>
          add_virtual_device s ''virtio-input'' None backend_device_file
      | (None, _) \<Rightarrow> Inr s)"

definition virtio_console_device ::
  "virtio_console \<Rightarrow> launch_script \<Rightarrow> py_error + launch_script" where
  "virtio_console_device c s =
     (let preceding_mask = (if console_use_type c = Some ''Virtio console'' then ''@'' else []);
          backend_type = console_backend_type c
      in if backend_type = Some ''file'' then
           add_virtual_device s ''virtio-console'' None
             (preceding_mask @ ''file:file_port='' @ py_str_opt (console_output_file_path c))
         else if backend_type = Some ''tty'' then
           add_virtual_device s ''virtio-console'' None
             (preceding_mask @ ''tty:tty_port='' @ py_str_opt (console_tty_device_path c))
         else if backend_type = Some ''sock server'' \<or> backend_type = Some ''sock client'' then
           (case console_sock_file_path c of
              None \<Rightarrow> Inl TypeError
            | Some sock_file_path \<Rightarrow>
                add_virtual_device s ''virtio-console'' None
                  (''socket:'' @ py_split_first CHR ''.'' (os_path_basename sock_file_path)
                     @ ''='' @ sock_file_path @ '':''
                     @ (if backend_type = Some ''sock server'' then ''server'' else ''client'')))
         else if backend_type = Some ''pty'' \<or> backend_type = Some ''stdio'' then
           add_virtual_device s ''virtio-console'' None
             (preceding_mask @ py_str_opt backend_type @ '':'' @ py_str_opt backend_type
                @ ''_port'')
         else Inr s)"

definition virtio_network_device ::
  "string \<Rightarrow> virtio_network \<Rightarrow> launch_script \<Rightarrow> py_error + launch_script" where
  "virtio_network_device name n s =
     (case network_interface_name n of
        None \<Rightarrow> Inl AttributeError
      | Some interface_name \<Rightarrow>
          (case py_split_maxsplit1 CHR '','' interface_name of
             [] \<Rightarrow> Inl IndexError
           | first_param # more_params \<Rightarrow>
               (let params1 = (''tap='' @ first_param) # more_params;
                    params2 = (if network_virtio_framework n = Some ''Kernel based (Virtual Host)''
                               then params1 @ [''vhost''] else params1);
                    s1 = add_init_command s ''mac=$(cat /sys/class/net/e*/address)'';
                    params3 = params2 @ [''mac_seed=${mac:0:17}-'' @ name]
                in add_virtual_device s1 ''virtio-net'' None (py_join '','' params3))))"

definition virtio_block_device :: "string \<Rightarrow> launch_script \<Rightarrow> py_error + launch_script" where
  "virtio_block_device virtio_block s =
     (case py_split_maxsplit1 CHR '':'' virtio_block of
        [block_device, rootfs_img] \<Rightarrow>
          (let var = ''dir_'' @ os_path_basename block_device;
               s1 = add_init_command s
                      (var @ ''='' @ [CHR 0x60] @ ''mount_partition '' @ block_device @ [CHR 0x60])
           in case add_virtual_device s1 ''virtio-blk'' None
                     (os_path_join (''${'' @ var @ ''}'') rootfs_img) of
                Inl e \<Rightarrow> Inl e
              | Inr s2 \<Rightarrow> Inr (add_deinit_command s2 (''unmount_partition ${'' @ var @ ''}'')))
      | _ \<Rightarrow> add_virtual_device s ''virtio-blk'' None virtio_block)"

definition gpu_display_params :: "string option \<Rightarrow> gpu_display \<Rightarrow> string list" where
  "gpu_display_params display_type d =
     (if display_type = Some ''Window''
      then [''geometry='' @ py_str_opt (display_window_dimensions d) @ ''+''
              @ py_str_opt (display_horizontal_offset d) @ ''+''
              @ py_str_opt (display_vertical_offset d)]
      else [])
     @ (if display_type = Some ''Full screen''
        then [''geometry=fullscreen:'' @ py_str_opt (display_monitor_id d)]
        else [])"

definition virtio_gpu_device :: "virtio_gpu \<Rightarrow> launch_script \<Rightarrow> py_error + launch_script" where
  "virtio_gpu_device g s =
     add_virtual_device s ''virtio-gpu'' None
       (py_join '','' (concat (map (gpu_display_params (gpu_display_type g)) (gpu_displays g))))"

definition vsock_device :: "string \<Rightarrow> launch_script \<Rightarrow> py_error + launch_script" where
  "vsock_device vsock s = add_virtual_device s ''vhost-vsock'' None (''cid='' @ vsock)"

text \<open>The section \<^verbatim>\<open>Miscellaneous\<close> and the last parameter, the name of the VM.\<close>

definition conclude_dm_parameters :: "vm_scenario \<Rightarrow> string \<Rightarrow> launch_script \<Rightarrow> launch_script" where
  "conclude_dm_parameters vm name s =
     (let s1 = (if vm_type vm = Some ''RTVM''
                then (let s' = add_plain_dm_parameter s ''--rtvm''
                      in if vm_lapic_passthrough vm = Some ''y''
                         then add_plain_dm_parameter s' ''--lapic_pt'' else s')
                else s);
          s2 = add_dynamic_dm_parameter s1 ''add_logger_settings'' ''console=4 kmsg=3 disk=5''
      in add_plain_dm_parameter s2 name)"

text \<open>
  \<^verbatim>\<open>generate_for_one_vm\<close> returns the script and the warnings it logged. With no \<^verbatim>\<open>hv\<close> node
  the query for the scheduler is made on \<^verbatim>\<open>None\<close> and raises \<^verbatim>\<open>AttributeError\<close>. The
  argument \<^verbatim>\<open>vm_id\<close> is not used by the source.
\<close>

definition generate_for_one_vm ::
  "board_etree \<Rightarrow> hv_scenario option \<Rightarrow> vm_scenario \<Rightarrow> int
     \<Rightarrow> py_error + (launch_script \<times> string list)" where
  "generate_for_one_vm board hv_opt vm post_vm_id =
     (let name = (case vm_name vm of None \<Rightarrow> ''ACRN Post-Launched VM'' | Some n \<Rightarrow> n);
          script = LaunchScript_init board name vm;
          s1 = add_init_command script ''probe_modules'';
          s2 = (if first_text (vm_os_types vm) = Some ''Windows OS''
                then add_plain_dm_parameter s1 ''--windows'' else s1);
          s3 = add_vm_descriptor s2 ''vm_type''
                 (quoted (case vm_type vm of None \<Rightarrow> ''STANDARD_VM'' | Some t \<Rightarrow> t))
      in case hv_opt of
           None \<Rightarrow> Inl AttributeError
         | Some hv \<Rightarrow>
       (let s4 = add_vm_descriptor s3 ''scheduler'' (quoted (py_str_opt (hv_scheduler hv)))
        in case add_cpus board name (vm_pcpu_ids vm) s4 of
             Inl e \<Rightarrow> Inl e
           | Inr (s5, warnings) \<Rightarrow>
         (let s6 = add_plain_dm_parameter s5 (''-m '' @ py_str_opt (vm_memory_size vm) @ ''M'');
              s7 = (if ssram_enabled_is_y \<and> vm_type vm = Some ''RTVM''
                    then add_plain_dm_parameter s6 ''--ssram'' else s6);
              s8 = (if vm_vbootloader vm = Some ''y''
                    then add_plain_dm_parameter s7 ''--ovmf /usr/share/acrn/bios/OVMF.fd''
                    else s7)
          in py_then
               (for_each (\<lambda>step s. step s)
                  [\<lambda>s. if vm_type vm \<noteq> Some ''RTVM''
                        then add_virtual_device s ''lpc'' (Some (VStr ''1:0'')) []
                        else Inr s,
                   \<lambda>s. Inr (if vm_vuart0 vm = Some ''y''
                             then add_plain_dm_parameter s ''-l com1,stdio'' else s),
                   \<lambda>s. add_virtual_device s ''hostbridge'' (Some (VStr ''0:0'')) [],
                   for_each (ivshmem_device ''dm:/'') (ivshmem_regions_of ''Device Model'' name vm),
                   for_each (ivshmem_device ''hv:/'') (ivshmem_regions_of ''Hypervisor'' name vm),
                   \<lambda>s. if vm_console_vuart vm = Some ''PCI''
                        then add_virtual_device s ''uart'' None ''vuart_idx:0'' else Inr s,
                   for_each (vuart_device name) (vuart_connections_of name hv),
                   for_each usb_xhci_device (vm_usb_xhci vm),
                   for_each virtio_input_device (vm_virtio_inputs vm),
                   for_each virtio_console_device (vm_virtio_consoles vm),
                   for_each (virtio_network_device name) (vm_virtio_networks vm),
                   for_each virtio_block_device (vm_virtio_blocks vm),
                   for_each virtio_gpu_device (vm_virtio_gpus vm),
                   for_each vsock_device (vm_vsocks vm),
                   for_each passthru_entry (vm_pci_devs vm)]
                  s8)
               (\<lambda>s. Inr (conclude_dm_parameters vm name s, warnings)))))"

subsection \<open>\<^verbatim>\<open>to_string\<close> and \<^verbatim>\<open>write_to_file\<close>\<close>

definition nl :: string where
  "nl = [CHR 0x0A]"

definition unlines :: "string list \<Rightarrow> string" where
  "unlines ls = concat (map (\<lambda>l. l @ nl) ls)"

text \<open>
  The rows of the CPU table; \<^verbatim>\<open>{self._cpu_dict[cpu_info]:3d}\<close> raises \<^verbatim>\<open>TypeError\<close> when the
  value is \<^verbatim>\<open>None\<close>.
\<close>

fun cpu_table_rows :: "int \<Rightarrow> (int \<times> int option) list \<Rightarrow> py_error + string" where
  "cpu_table_rows vcpu_id [] = Inr []"
| "cpu_table_rows vcpu_id ((cpu_info, lapic) # rest) =
     (case lapic of
        None \<Rightarrow> Inl TypeError
      | Some lapic_id \<Rightarrow>
          (case cpu_table_rows (vcpu_id + 1) rest of
             Inl e \<Rightarrow> Inl e
           | Inr rows \<Rightarrow>
               Inr (''#   '' @ py_format_3d cpu_info @ py_ljust 17 []
                      @ py_format_3d vcpu_id @ py_ljust 17 []
                      @ py_format_3d lapic_id @ nl @ rows)))"

definition cpu_id_note :: string where
  "cpu_id_note = nl @ unlines
     [''# Note for developers: The number of available logical CPUs depends on the'',
      ''# number of enabled cores and whether Hyperthreading is enabled in the BIOS'',
      ''# settings. CPU IDs are assigned to each logical CPU but are not the same ID'',
      ''# value throughout the system:'',
      ''#'',
      ''# Native CPU_ID:'',
      ''#       ID enumerated by the Linux Kernel and shown in the'',
      ''#       ACRN Configurator'' @ [CHR 0x27] @ ''s CPU Affinity option (used in the scenario.xml)'',
      ''# Service VM CPU_ID:'',
      ''#       ID assigned by the Service VM at runtime'',
      ''# APIC_ID:'',
      ''#       Advanced Programmable Interrupt Controller'' @ [CHR 0x27] @ ''s unique ID as'',
      ''#       enumerated by the board inspector (used in this launch script)'',
      ''#'',
      ''# This table shows equivalent CPU IDs for this scenario and board:'',
      ''#'']"

text \<open>
  \<^verbatim>\<open>to_string\<close>; \<open>template\<close> is the content of \<^verbatim>\<open>launch_script_template.sh\<close>. The source
  reads its first 99 characters, writes the line with the name of the VM, and reads the
  file again from the byte 99 on (\<^verbatim>\<open>f.seek(99, 0)\<close>). The file is read as UTF-8, in which a
  character below 128 is one byte and a character from 128 to 255 is two: after such a
  character among the first 99 the second reading starts before the 99th character, and
  it raises \<^verbatim>\<open>UnicodeDecodeError\<close> when the byte 99 is the second byte of a character.
\<close>

fun drop_bytes :: "nat \<Rightarrow> string \<Rightarrow> py_error + string" where
  "drop_bytes 0 s = Inr s"
| "drop_bytes (Suc n) [] = Inr []"
| "drop_bytes (Suc n) (c # cs) =
     (if (of_char c :: nat) < 128 then drop_bytes n cs
      else (case n of 0 \<Rightarrow> Inl UnicodeDecodeError | Suc m \<Rightarrow> drop_bytes m cs))"

definition to_string :: "string \<Rightarrow> launch_script \<Rightarrow> py_error + string" where
  "to_string template s =
     (case drop_bytes 99 template of
        Inl e \<Rightarrow> Inl e
      | Inr rest \<Rightarrow>
     (case cpu_table_rows 0 (cpu_dict s) of
        Inl e \<Rightarrow> Inl e
      | Inr rows \<Rightarrow>
          Inr (take 99 template
               @ ''# Launch script for VM name: '' @ script_vm_name s @ nl @ nl
               @ rest
               @ nl @ ''###'' @ nl @ ''# The followings are generated by launch_cfg_gen.py'' @ nl
               @ ''###'' @ nl @ nl
               @ ''# Defining variables that describe VM types'' @ nl
               @ concat (map (\<lambda>(name, val). name @ ''='' @ val @ nl) (vm_descriptors s))
               @ nl
               @ ''# Initializing'' @ nl
               @ concat (map (\<lambda>command. command @ nl) (init_commands s))
               @ nl
               @ cpu_id_note @ nl
               @ ''#   Native CPU_ID    Service VM CPU_ID    APIC_ID'' @ nl
               @ ''#   -------------    -----------------    -------'' @ nl
               @ rows
               @ nl
               @ ''# Invoking ACRN device model'' @ nl
               @ ''dm_params=('' @ nl
               @ concat (map (\<lambda>param. ''    '' @ param @ nl) (dm_parameters s))
               @ '')'' @ nl @ nl
               @ ''echo '' @ [CHR 0x22] @ ''Launch device model with parameters: ${dm_params[@]}''
               @ [CHR 0x22] @ nl
               @ ''acrn-dm '' @ [CHR 0x22] @ ''${dm_params[@]}'' @ [CHR 0x22] @ nl @ nl
               @ ''# Deinitializing'' @ nl
               @ concat (map (\<lambda>command. command @ nl) (deinit_commands s)))))"

text \<open>\<^verbatim>\<open>write_to_file\<close> gives the file that it writes: its path and its content.\<close>

definition write_to_file :: "string \<Rightarrow> launch_script \<Rightarrow> string \<Rightarrow> py_error + (string \<times> string)" where
  "write_to_file template s path =
     (case to_string template s of Inl e \<Rightarrow> Inl e | Inr text \<Rightarrow> Inr (path, text))"

subsection \<open>\<^verbatim>\<open>main\<close>\<close>

text \<open>
  What \<^verbatim>\<open>main\<close> meets outside the two documents: the template of the scripts, the outcome
  of \<^verbatim>\<open>os.mkdir(out_dir)\<close> and the answer of \<^verbatim>\<open>os.path.isfile(out_dir)\<close>. The two documents
  are taken as parsed. \<^verbatim>\<open>main\<close> returns its status and the files written, or raises.
\<close>

datatype mkdir_outcome = Mkdir_Created | Mkdir_FileExistsError | Mkdir_Exception

record environment =
  env_template :: string
  env_mkdir :: mkdir_outcome
  env_isfile :: bool

text \<open>\<^verbatim>\<open>int(x)\<close> of a text or \<^verbatim>\<open>None\<close>: \<^verbatim>\<open>TypeError\<close> on \<^verbatim>\<open>None\<close>.\<close>

definition py_int_of :: "string option \<Rightarrow> py_error + int" where
  "py_int_of v =
     (case v of
        None \<Rightarrow> Inl TypeError
      | Some t \<Rightarrow> (case py_int 10 t of None \<Rightarrow> Inl ValueError | Some i \<Rightarrow> Inr i))"

fun py_ints_of :: "string option list \<Rightarrow> py_error + int list" where
  "py_ints_of [] = Inr []"
| "py_ints_of (v # vs) =
     (case py_int_of v of
        Inl e \<Rightarrow> Inl e
      | Inr i \<Rightarrow> (case py_ints_of vs of Inl e \<Rightarrow> Inl e | Inr is \<Rightarrow> Inr (i # is)))"

text \<open>The body of the loop over the post-launched VMs; the state is the list of files.\<close>

definition main_post_vm ::
  "environment \<Rightarrow> board_etree \<Rightarrow> scenario_etree \<Rightarrow> string \<Rightarrow> int \<Rightarrow> int list \<Rightarrow> int list
     \<Rightarrow> vm_scenario \<Rightarrow> (string \<times> string) list \<Rightarrow> py_error + (string \<times> string) list" where
  "main_post_vm env board scenario out_dir service_id cpus_for_sos post_vm_ids post_vm files =
     (case py_int_of (vm_id post_vm) of
        Inl e \<Rightarrow> Inl e
      | Inr post_vm_id \<Rightarrow>
          (if post_vm_id \<notin> set post_vm_ids then Inr files
           else
             (case generate_for_one_vm board (hv_scenario_etree scenario) post_vm post_vm_id of
                Inl e \<Rightarrow> Inl e
              | Inr (script, warnings) \<Rightarrow>
                  (case cpu_ids_to_lapic_ids board (py_str_opt (service_vm_name scenario))
                          (map py_str_int cpus_for_sos) of
                     Inl e \<Rightarrow> Inl e
                   | Inr (lapic_ids, warnings') \<Rightarrow>
                       (case write_to_file (env_template env)
                               (add_sos_cpu_dict script (zip cpus_for_sos lapic_ids))
                               (os_path_join out_dir
                                  (''launch_user_vm_id'' @ py_str_int (post_vm_id - service_id)
                                     @ ''.sh'')) of
                          Inl e \<Rightarrow> Inl e
                        | Inr file \<Rightarrow> Inr (files @ [file]))))))"

definition main ::
  "environment \<Rightarrow> board_etree \<Rightarrow> scenario_etree \<Rightarrow> int \<Rightarrow> string
     \<Rightarrow> py_error + (int \<times> (string \<times> string) list)" where
  "main env board scenario user_vm_id out_dir =
     (if service_vm_id scenario = None \<and> length (post_vms scenario) > 0 then Inr (1, [])
      else
        (case py_int_of (service_vm_id scenario) of
           Inl e \<Rightarrow> Inl e
         | Inr service_id \<Rightarrow>
        (case py_ints_of
                (map Some (filter (\<lambda>x. x \<notin> set (pre_launched_pcpu_ids scenario))
                             (concat (map thread_cpu_ids (threads board))))) of
           Inl e \<Rightarrow> Inl e
         | Inr cpu_ids \<Rightarrow>
        (let cpus_for_sos = sort cpu_ids
         in if env_mkdir env = Mkdir_FileExistsError \<and> env_isfile env then Inr (1, [])
            else if env_mkdir env = Mkdir_Exception then Inr (1, [])
            else
              (case (if user_vm_id = 0 then py_ints_of (map vm_id (post_vms scenario))
                     else Inr [user_vm_id + service_id]) of
                 Inl e \<Rightarrow> Inl e
               | Inr post_vm_ids \<Rightarrow>
                   (case for_each
                           (main_post_vm env board scenario out_dir service_id cpus_for_sos
                              post_vm_ids)
                           (post_vms scenario) [] of
                      Inl e \<Rightarrow> Inl e
                    | Inr files \<Rightarrow> Inr (0, files)))))))"

subsection \<open>Sequences of calls on one script\<close>

text \<open>
  The four methods that append a text unless it is there already, as calls, and a
  sequence of them run on a script from left to right.
\<close>

datatype script_call =
  Add_Init string
| Add_Deinit string
| Add_Plain string
| Add_Dynamic string string

fun apply_call :: "launch_script \<Rightarrow> script_call \<Rightarrow> launch_script" where
  "apply_call s (Add_Init command) = add_init_command s command"
| "apply_call s (Add_Deinit command) = add_deinit_command s command"
| "apply_call s (Add_Plain opt) = add_plain_dm_parameter s opt"
| "apply_call s (Add_Dynamic cmd opt) = add_dynamic_dm_parameter s cmd opt"

definition script_calls :: "launch_script \<Rightarrow> script_call list \<Rightarrow> launch_script" where
  "script_calls s cs = foldl apply_call s cs"

text \<open>
  The text that a call asks to put into the initialisation commands, the
  deinitialisation commands and the parameters of the device model.
\<close>

fun init_text :: "script_call \<Rightarrow> string list" where
  "init_text (Add_Init command) = [command]"
| "init_text c = []"

fun deinit_text :: "script_call \<Rightarrow> string list" where
  "deinit_text (Add_Deinit command) = [command]"
| "deinit_text c = []"

fun dm_text :: "script_call \<Rightarrow> string list" where
  "dm_text (Add_Plain opt) = [opt]"
| "dm_text (Add_Dynamic cmd opt) = [dynamic_dm_parameter cmd opt]"
| "dm_text c = []"

text \<open>A list without the repetitions of its elements: every element at its first place.\<close>

definition first_occurrences :: "'a list \<Rightarrow> 'a list" where
  "first_occurrences xs = rev (remdups (rev xs))"

subsection \<open>The identifier that the board gives a CPU\<close>


subsection \<open>Example documents\<close>

text \<open>
  A board with four CPUs, a VGA controller at 00:02.0, a USB controller at 00:14.0 and an
  Ethernet controller at 00:1f.6; a hypervisor node; a post-launched VM without devices.
\<close>

definition example_board :: board_etree where
  "example_board =
     \<lparr>threads =
        [\<lparr>thread_cpu_ids = [''0''], thread_apic_ids = [''0x0'']\<rparr>,
         \<lparr>thread_cpu_ids = [''1''], thread_apic_ids = [''0x2'']\<rparr>,
         \<lparr>thread_cpu_ids = [''2''], thread_apic_ids = [''0x4'']\<rparr>,
         \<lparr>thread_cpu_ids = [''3''], thread_apic_ids = [''0x6'']\<rparr>],
      pci_devices =
        [\<lparr>bus_type = Some ''pci'', bus_address = Some ''0x0'', address = Some ''0x20000'',
          vendor_id = Some ''0x8086'', class_code = Some ''0x030000''\<rparr>,
         \<lparr>bus_type = Some ''pci'', bus_address = Some ''0x0'', address = Some ''0x140000'',
          vendor_id = Some ''0x8086'', class_code = Some ''0x0c0330''\<rparr>,
         \<lparr>bus_type = Some ''pci'', bus_address = Some ''0x0'', address = Some ''0x1f0006'',
          vendor_id = Some ''0x8086'', class_code = Some ''0x020000''\<rparr>]\<rparr>"

definition example_hv :: hv_scenario where
  "example_hv = \<lparr>hv_scheduler = Some ''SCHED_BVT'', hv_vuart_connections = []\<rparr>"

definition example_vm :: vm_scenario where
  "example_vm =
     \<lparr>vm_id = Some ''1'', vm_name = Some ''POST_STD_VM1'', vm_os_types = [''Ubuntu''],
      vm_type = Some ''STANDARD_VM'', vm_ptm = [], vm_pcpu_ids = [], vm_memory_size = Some ''2048'',
      vm_vbootloader = None, vm_vuart0 = None, vm_console_vuart = None,
      vm_lapic_passthrough = None, vm_ivshmem_regions = [], vm_usb_xhci = [],
      vm_virtio_inputs = [], vm_virtio_consoles = [], vm_virtio_networks = [],
      vm_virtio_blocks = [], vm_virtio_gpus = [], vm_vsocks = [], vm_pci_devs = []\<rparr>"



section \<open>Properties\<close>

subsection \<open>The slot allocator\<close>

lemma fresh_pool: "VirtualBDFAllocator_init =
  [3, 4, 5, 6, 7, 8, 9, 10, 11, 12, 13, 14, 15, 16, 17, 18, 19, 20, 21, 22, 23, 24, 25, 26,
   27, 28, 29]"
  unfolding VirtualBDFAllocator_init_def py_range_def by code_simp

lemma remove_virtual_bdf_subseq: "subseq (remove_virtual_bdf p s) p"
proof (cases s)
  case (VInt n)
  have "subseq (remove1 n p) p"
    by (induction p) auto
  then show ?thesis using VInt by simp
next
  case (VStr t)
  then show ?thesis by simp
qed

lemma run_call_subseq: "subseq (fst (run_call p c)) p"
proof (cases c)
  case (Allocate d opts)
  then show ?thesis
    by (cases p) (auto simp: get_virtual_bdf_def)
next
  case (Release s)
  then show ?thesis by (simp add: remove_virtual_bdf_subseq)
qed

lemma run_call_drawn:
  "distinct p \<Longrightarrow> distinct (snd (run_call p c)) \<and> set (snd (run_call p c)) \<subseteq> set p
     \<and> set (snd (run_call p c)) \<inter> set (fst (run_call p c)) = {}"
proof (cases c)
  case (Allocate d opts)
  assume "distinct p"
  then show ?thesis using Allocate
    by (cases p) (auto simp: get_virtual_bdf_def)
next
  case (Release s)
  then show ?thesis by simp
qed

lemma subseq_distinct: "subseq xs ys \<Longrightarrow> distinct ys \<Longrightarrow> distinct xs"
  by (auto simp: subseq_conv_nths)

lemma subseq_set_mono: "subseq xs ys \<Longrightarrow> set xs \<subseteq> set ys"
  by (auto simp: subseq_conv_nths dest: in_set_nthsD)

lemma run_calls_subseq: "subseq (fst (run_calls p cs)) p"
proof (induction cs arbitrary: p)
  case Nil
  show ?case by simp
next
  case (Cons c cs)
  have "subseq (fst (run_calls (fst (run_call p c)) cs)) (fst (run_call p c))"
    by (rule Cons.IH)
  then have "subseq (fst (run_calls (fst (run_call p c)) cs)) p"
    using run_call_subseq subseq_order.order_trans by blast
  then show ?case by (simp add: case_prod_beta)
qed

lemma run_calls_drawn:
  "distinct p \<Longrightarrow> distinct (snd (run_calls p cs)) \<and> set (snd (run_calls p cs)) \<subseteq> set p
     \<and> set (snd (run_calls p cs)) \<inter> set (fst (run_calls p cs)) = {}"
proof (induction cs arbitrary: p)
  case Nil
  show ?case by simp
next
  case (Cons c cs)
  let ?p = "fst (run_call p c)" and ?d = "snd (run_call p c)"
  have sub: "subseq ?p p" by (rule run_call_subseq)
  then have dp: "distinct ?p" using Cons.prems subseq_distinct by blast
  have step: "distinct ?d" "set ?d \<subseteq> set p" "set ?d \<inter> set ?p = {}"
    using run_call_drawn [OF Cons.prems, of c] by auto
  have rest: "distinct (snd (run_calls ?p cs))" "set (snd (run_calls ?p cs)) \<subseteq> set ?p"
    "set (snd (run_calls ?p cs)) \<inter> set (fst (run_calls ?p cs)) = {}"
    using Cons.IH [OF dp] by auto
  have sub': "set (fst (run_calls ?p cs)) \<subseteq> set ?p"
    using run_calls_subseq [of ?p cs] by (rule subseq_set_mono)
  have eq: "run_calls p (c # cs) = (fst (run_calls ?p cs), ?d @ snd (run_calls ?p cs))"
    by (simp add: case_prod_beta)
  have "set ?p \<subseteq> set p" using sub by (rule subseq_set_mono)
  show ?case unfolding eq using step rest sub' \<open>set ?p \<subseteq> set p\<close> by auto
qed

lemma run_calls_append:
  "run_calls p (cs @ cs') =
     (fst (run_calls (fst (run_calls p cs)) cs'),
      snd (run_calls p cs) @ snd (run_calls (fst (run_calls p cs)) cs'))"
  by (induction cs arbitrary: p) (simp_all add: case_prod_beta)

lemma distinct_fresh_pool: "distinct VirtualBDFAllocator_init"
  unfolding fresh_pool by simp

lemma distinct_pool_after: "distinct (pool_after cs)"
  unfolding pool_after_def
  using run_calls_subseq distinct_fresh_pool by (rule subseq_distinct)

text \<open>
  Claim C1. On a freshly constructed allocator and for every sequence \<open>cs\<close> of
  \<^verbatim>\<open>get_virtual_bdf\<close> and \<^verbatim>\<open>remove_virtual_bdf\<close> calls: the slots drawn from the pool
  (the returns of slot 2 by the two early exits aside) are pairwise different; no drawn
  slot is in the free list afterwards; one more call \<open>c\<close> leaves a subsequence of the
  free list, so the pool only shrinks; and once \<^verbatim>\<open>remove_virtual_bdf(slot)\<close> has run, no
  later sequence \<open>cs'\<close> of calls draws \<open>slot\<close> or brings it back into the free list.
\<close>

theorem allocation_is_monotonic:
  "distinct (drawn_by cs)
   \<and> set (drawn_by cs) \<inter> set (pool_after cs) = {}
   \<and> subseq (pool_after (cs @ [c])) (pool_after cs)
   \<and> slot \<notin> set (snd (run_calls (pool_after (cs @ [Release (VInt slot)])) cs'))
   \<and> slot \<notin> set (pool_after (cs @ Release (VInt slot) # cs'))"
proof -
  have a: "distinct (drawn_by cs)" "set (drawn_by cs) \<inter> set (pool_after cs) = {}"
    unfolding drawn_by_def pool_after_def
    using run_calls_drawn [OF distinct_fresh_pool, of cs] by auto
  have b: "subseq (pool_after (cs @ [c])) (pool_after cs)"
    unfolding pool_after_def run_calls_append
    using run_call_subseq [of "fst (run_calls VirtualBDFAllocator_init cs)" c]
    by (simp add: case_prod_beta)
  let ?p = "pool_after (cs @ [Release (VInt slot)])"
  have p: "?p = remove_virtual_bdf (pool_after cs) (VInt slot)"
    unfolding pool_after_def run_calls_append by simp
  have gone: "slot \<notin> set ?p"
    unfolding p using distinct_pool_after [of cs] by simp
  have "set (snd (run_calls ?p cs')) \<subseteq> set ?p"
    using run_calls_drawn [OF distinct_pool_after, of "cs @ [Release (VInt slot)]" cs'] by simp
  then have c: "slot \<notin> set (snd (run_calls ?p cs'))"
    using gone by blast
  have "pool_after (cs @ Release (VInt slot) # cs') = fst (run_calls ?p cs')"
    unfolding pool_after_def by (simp add: run_calls_append [of _ cs "Release (VInt slot) # cs'"] run_calls_append [of _ cs "[Release (VInt slot)]"])
  then have d: "slot \<notin> set (pool_after (cs @ Release (VInt slot) # cs'))"
    using subseq_set_mono [OF run_calls_subseq, of ?p cs'] gone by auto
  show ?thesis using a b c d by blast
qed

text \<open>
  Claim C2. \<^verbatim>\<open>list(range(3, 30))\<close> is the list of the integers 3 to 29: slot 30 is not in
  the free list of a fresh allocator, although the comment above the assignment reserves
  only the slots 0, 1, 2 and 31. The slots drawn from the pool by any sequence of calls
  lie between 3 and 29, so none of them is 0, 1, 2, 30 or 31.
\<close>

theorem fresh_pool_stops_at_29:
  "VirtualBDFAllocator_init =
     [3, 4, 5, 6, 7, 8, 9, 10, 11, 12, 13, 14, 15, 16, 17, 18, 19, 20, 21, 22, 23, 24, 25,
      26, 27, 28, 29]
   \<and> 30 \<notin> set VirtualBDFAllocator_init
   \<and> set (drawn_by cs) \<inter> {0, 1, 2, 30, 31} = {}"
proof -
  have "set (drawn_by cs) \<subseteq> set VirtualBDFAllocator_init"
    unfolding drawn_by_def using run_calls_drawn [OF distinct_fresh_pool, of cs] by simp
  then show ?thesis unfolding fresh_pool by auto
qed

text \<open>
  Claim C3. Whatever the free list \<open>p\<close> is (empty, or without slot 2):
  \<^verbatim>\<open>get_virtual_bdf\<close> called with a device node whose class code is \<^verbatim>\<open>0x030000\<close>, or with
  an options string that contains \<^verbatim>\<open>igd\<close>, returns slot 2 and the free list \<open>p\<close> as it
  was. As the state after the call is the state before it, any number of such calls in a
  row returns 2 each time.
\<close>

theorem gpu_shortcut_returns_slot_2:
  "(class_code d = Some ''0x030000'' \<longrightarrow> get_virtual_bdf p (Some d) opts = Inr (2, p))
   \<and> (py_in_str ''igd'' s \<longrightarrow> get_virtual_bdf p dev (Some s) = Inr (2, p))"
proof -
  have "s \<noteq> []" if "py_in_str ''igd'' s"
    using that by (cases s) auto
  then show ?thesis
    by (auto simp: get_virtual_bdf_def is_vga_device_def has_igd_option_def)
qed

theorem gpu_shortcut_returns_slot_2_witness:
  "get_virtual_bdf [] (Some \<lparr>bus_type = None, bus_address = None,
      address = None, vendor_id = None, class_code = Some ''0x030000''\<rparr>) None = Inr (2, [])
   \<and> get_virtual_bdf [7, 9] None (Some ''igd'') = Inr (2, [7, 9])"
  using gpu_shortcut_returns_slot_2 [where d = "\<lparr>bus_type = None, bus_address = None,
      address = None, vendor_id = None, class_code = Some ''0x030000''\<rparr>" and p = "[]" and opts = None and s = "''igd''"]
    gpu_shortcut_returns_slot_2 [where s = "''igd''" and p = "[7, 9]" and dev = None
      and d = "\<lparr>bus_type = None, bus_address = None,
      address = None, vendor_id = None, class_code = None\<rparr>"]
  by (simp add: py_startswith_def)

subsection \<open>The command stream builder\<close>

lemma first_occurrences_snoc:
  "first_occurrences (xs @ [x]) =
     (if x \<in> set xs then first_occurrences xs else first_occurrences xs @ [x])"
  by (simp add: first_occurrences_def)

lemma set_first_occurrences: "set (first_occurrences xs) = set xs"
  by (simp add: first_occurrences_def)

lemma distinct_first_occurrences: "distinct (first_occurrences xs)"
  by (simp add: first_occurrences_def)

lemma count_list_distinct: "distinct xs \<Longrightarrow> x \<in> set xs \<Longrightarrow> count_list xs x = 1"
  by (induction xs) auto

lemma script_calls_snoc: "script_calls s (cs @ [c]) = apply_call (script_calls s cs) c"
  by (simp add: script_calls_def)

lemma script_calls_sequences:
  "init_commands (script_calls (LaunchScript_init board name vm) cs) =
     first_occurrences (concat (map init_text cs))
   \<and> deinit_commands (script_calls (LaunchScript_init board name vm) cs) =
     first_occurrences (concat (map deinit_text cs))
   \<and> dm_parameters (script_calls (LaunchScript_init board name vm) cs) =
     first_occurrences (concat (map dm_text cs))"
proof (induction cs rule: rev_induct)
  case Nil
  show ?case by (simp add: script_calls_def LaunchScript_init_def first_occurrences_def)
next
  case (snoc c cs)
  then show ?case
    unfolding script_calls_snoc
    by (cases c)
      (simp_all add: add_init_command_def add_deinit_command_def add_plain_dm_parameter_def
        add_dynamic_dm_parameter_def first_occurrences_snoc set_first_occurrences Let_def)
qed

lemma apply_call_other_fields:
  "vm_descriptors (apply_call s c) = vm_descriptors s
   \<and> cpu_dict (apply_call s c) = cpu_dict s
   \<and> script_vm_name (apply_call s c) = script_vm_name s"
  by (cases c)
    (simp_all add: add_init_command_def add_deinit_command_def add_plain_dm_parameter_def
      add_dynamic_dm_parameter_def Let_def)

lemma script_calls_other_fields:
  "vm_descriptors (script_calls s cs) = vm_descriptors s
   \<and> cpu_dict (script_calls s cs) = cpu_dict s
   \<and> script_vm_name (script_calls s cs) = script_vm_name s"
  by (induction cs rule: rev_induct) (simp_all add: script_calls_def apply_call_other_fields)

lemma to_string_of_script_calls:
  "\<exists>b1 b2 b3. \<forall>cs.
     to_string template (script_calls (LaunchScript_init board name vm) cs) =
       (case drop_bytes 99 template of
          Inl e \<Rightarrow> Inl e
        | Inr rest \<Rightarrow>
            Inr (b1 @ ''# Initializing'' @ nl
                 @ unlines (first_occurrences (concat (map init_text cs)))
                 @ b2 @ ''dm_params=('' @ nl
                 @ concat (map (\<lambda>param. ''    '' @ param @ nl)
                     (first_occurrences (concat (map dm_text cs))))
                 @ b3 @ ''# Deinitializing'' @ nl
                 @ unlines (first_occurrences (concat (map deinit_text cs)))))"
proof -
  let ?fresh = "LaunchScript_init board name vm"
  let ?rest = "case drop_bytes 99 template of Inl e \<Rightarrow> [] | Inr rest \<Rightarrow> rest"
  let ?b1 = "take 99 template @ ''# Launch script for VM name: '' @ name @ nl @ nl @ ?rest
      @ nl @ ''###'' @ nl @ ''# The followings are generated by launch_cfg_gen.py'' @ nl
      @ ''###'' @ nl @ nl @ ''# Defining variables that describe VM types'' @ nl @ nl"
  let ?b2 = "nl @ cpu_id_note @ nl
      @ ''#   Native CPU_ID    Service VM CPU_ID    APIC_ID'' @ nl
      @ ''#   -------------    -----------------    -------'' @ nl
      @ nl @ ''# Invoking ACRN device model'' @ nl"
  let ?b3 = "'')'' @ nl @ nl
      @ ''echo '' @ [CHR 0x22] @ ''Launch device model with parameters: ${dm_params[@]}''
      @ [CHR 0x22] @ nl
      @ ''acrn-dm '' @ [CHR 0x22] @ ''${dm_params[@]}'' @ [CHR 0x22] @ nl @ nl"
  note seq = script_calls_sequences [THEN conjunct1]
    script_calls_sequences [THEN conjunct2, THEN conjunct1]
    script_calls_sequences [THEN conjunct2, THEN conjunct2]
  have fields: "vm_descriptors (script_calls ?fresh cs) = []"
    "cpu_dict (script_calls ?fresh cs) = []"
    "script_vm_name (script_calls ?fresh cs) = name" for cs
    using script_calls_other_fields [of ?fresh cs] by (simp_all add: LaunchScript_init_def)
  have "\<forall>cs. to_string template (script_calls ?fresh cs) =
       (case drop_bytes 99 template of
          Inl e \<Rightarrow> Inl e
        | Inr rest \<Rightarrow>
            Inr (?b1 @ ''# Initializing'' @ nl
                 @ unlines (first_occurrences (concat (map init_text cs)))
                 @ ?b2 @ ''dm_params=('' @ nl
                 @ concat (map (\<lambda>param. ''    '' @ param @ nl)
                     (first_occurrences (concat (map dm_text cs))))
                 @ ?b3 @ ''# Deinitializing'' @ nl
                 @ unlines (first_occurrences (concat (map deinit_text cs)))))"
    by (simp add: to_string_def fields seq unlines_def split: sum.splits)
  then show ?thesis by blast
qed

text \<open>
  Claim C7. Run any sequence \<open>cs\<close> of \<^verbatim>\<open>add_init_command\<close>, \<^verbatim>\<open>add_deinit_command\<close>,
  \<^verbatim>\<open>add_plain_dm_parameter\<close> and \<^verbatim>\<open>add_dynamic_dm_parameter\<close> calls on a fresh script. Each of
  the three sequences of the script is then the list of the texts that the calls asked
  for, every text once and at the place of its first insertion. So a text added twice, at
  any point of any sequence, occurs exactly once. The serialized output carries the same
  sequences: whatever the calls are, the text that \<^verbatim>\<open>to_string\<close> returns is made of three
  fixed pieces, which end with the headings \<^verbatim>\<open># Initializing\<close>, \<^verbatim>\<open>dm_params=(\<close> and
  \<^verbatim>\<open># Deinitializing\<close>, each followed by the elements of its sequence, one on a line, in
  this order and every text once. (\<^verbatim>\<open>to_string\<close> raises only when the template cannot be
  read from its byte 99 on.)
\<close>

theorem append_if_absent_is_idempotent:
  "init_commands (script_calls (LaunchScript_init board name vm) cs) =
     first_occurrences (concat (map init_text cs))
   \<and> deinit_commands (script_calls (LaunchScript_init board name vm) cs) =
     first_occurrences (concat (map deinit_text cs))
   \<and> dm_parameters (script_calls (LaunchScript_init board name vm) cs) =
     first_occurrences (concat (map dm_text cs))
   \<and> count_list (init_commands (script_calls (LaunchScript_init board name vm)
         (cs @ [Add_Init t, Add_Init t] @ cs'))) t = 1
   \<and> count_list (deinit_commands (script_calls (LaunchScript_init board name vm)
         (cs @ [Add_Deinit t, Add_Deinit t] @ cs'))) t = 1
   \<and> count_list (dm_parameters (script_calls (LaunchScript_init board name vm)
         (cs @ [Add_Plain t, Add_Plain t] @ cs'))) t = 1
   \<and> count_list (dm_parameters (script_calls (LaunchScript_init board name vm)
         (cs @ [Add_Dynamic cmd opt, Add_Dynamic cmd opt] @ cs')))
         (dynamic_dm_parameter cmd opt) = 1
   \<and> (\<exists>b1 b2 b3. \<forall>calls.
         to_string template (script_calls (LaunchScript_init board name vm) calls) =
           (case drop_bytes 99 template of
              Inl e \<Rightarrow> Inl e
            | Inr rest \<Rightarrow>
                Inr (b1 @ ''# Initializing'' @ nl
                     @ unlines (first_occurrences (concat (map init_text calls)))
                     @ b2 @ ''dm_params=('' @ nl
                     @ concat (map (\<lambda>param. ''    '' @ param @ nl)
                         (first_occurrences (concat (map dm_text calls))))
                     @ b3 @ ''# Deinitializing'' @ nl
                     @ unlines (first_occurrences (concat (map deinit_text calls))))))"
proof -
  have one: "count_list (first_occurrences xs) x = 1" if "x \<in> set xs" for xs :: "string list" and x
    using that by (simp add: count_list_distinct distinct_first_occurrences set_first_occurrences)
  note seq = script_calls_sequences [THEN conjunct1]
    script_calls_sequences [THEN conjunct2, THEN conjunct1]
    script_calls_sequences [THEN conjunct2, THEN conjunct2]
  have lists: "init_commands (script_calls (LaunchScript_init board name vm) cs) =
       first_occurrences (concat (map init_text cs))
     \<and> deinit_commands (script_calls (LaunchScript_init board name vm) cs) =
       first_occurrences (concat (map deinit_text cs))
     \<and> dm_parameters (script_calls (LaunchScript_init board name vm) cs) =
       first_occurrences (concat (map dm_text cs))
     \<and> count_list (init_commands (script_calls (LaunchScript_init board name vm)
           (cs @ [Add_Init t, Add_Init t] @ cs'))) t = 1
     \<and> count_list (deinit_commands (script_calls (LaunchScript_init board name vm)
           (cs @ [Add_Deinit t, Add_Deinit t] @ cs'))) t = 1
     \<and> count_list (dm_parameters (script_calls (LaunchScript_init board name vm)
           (cs @ [Add_Plain t, Add_Plain t] @ cs'))) t = 1
     \<and> count_list (dm_parameters (script_calls (LaunchScript_init board name vm)
           (cs @ [Add_Dynamic cmd opt, Add_Dynamic cmd opt] @ cs')))
           (dynamic_dm_parameter cmd opt) = 1"
    by (simp add: seq one)
  show ?thesis
    using lists to_string_of_script_calls [of template board name vm] by blast
qed

subsection \<open>Virtual and passthrough devices\<close>

lemma py_strip_command:
  assumes "cmd \<noteq> []" "\<not> py_isspace (hd cmd)" "\<not> py_isspace (last cmd)"
  shows "py_strip (cmd @ t) = cmd @ rev (dropWhile py_isspace (rev t))"
proof -
  have front: "dropWhile py_isspace (cmd @ t) = cmd @ t"
    using assms by (cases cmd) auto
  have "dropWhile py_isspace (rev t @ rev cmd) = dropWhile py_isspace (rev t) @ rev cmd"
  proof (cases "\<forall>x \<in> set (rev t). py_isspace x")
    case True
    have "dropWhile py_isspace (rev cmd) = rev cmd"
      using assms by (cases "rev cmd") (auto simp: last_rev hd_rev)
    moreover have "dropWhile py_isspace (rev t) = []"
      using True by simp
    ultimately show ?thesis using True by (simp add: dropWhile_append)
  next
    case False
    then show ?thesis by (auto simp: dropWhile_append)
  qed
  then show ?thesis unfolding py_strip_def front by simp
qed

lemma dynamic_dm_parameter_command:
  assumes "cmd \<noteq> []" "\<not> py_isspace (hd cmd)" "\<not> py_isspace (last cmd)"
  shows "dynamic_dm_parameter cmd opt =
           CHR 0x60 # cmd @ rev (dropWhile py_isspace
             (rev (replicate (40 - length cmd) CHR '' '' @ '' '' @ opt))) @ [CHR 0x60]"
  unfolding dynamic_dm_parameter_def py_ljust_def
  using py_strip_command [OF assms] by simp

lemma dynamic_is_not_virtio_poll: "dynamic_dm_parameter cmd opt \<noteq> ''--virtio_poll 1000000''"
  by (simp add: dynamic_dm_parameter_def)

lemma passthru_is_not_storm_monitor:
  "passthru_parameter vbdf bus dev fn options \<noteq> storm_monitor_parameter"
proof -
  show ?thesis
    unfolding passthru_parameter_def storm_monitor_parameter_def
    by (simp add: dynamic_dm_parameter_command py_isspace_def)
qed

lemma count_list_snoc: "count_list (xs @ [y]) x = count_list xs x + (if x = y then 1 else 0)"
  by (induction xs) auto

lemma count_list_absent: "x \<notin> set xs \<Longrightarrow> count_list xs x = 0"
  by (induction xs) auto

lemma add_dynamic_keeps_count:
  "x \<noteq> dynamic_dm_parameter cmd opt \<Longrightarrow>
   count_list (dm_parameters (add_dynamic_dm_parameter s cmd opt)) x = count_list (dm_parameters s) x"
  by (simp add: add_dynamic_dm_parameter_def Let_def count_list_snoc)

lemma add_dynamic_parameters:
  "dm_parameters (add_dynamic_dm_parameter s cmd opt) =
     dm_parameters s @ (if dynamic_dm_parameter cmd opt \<in> set (dm_parameters s) then []
                        else [dynamic_dm_parameter cmd opt])"
  by (simp add: add_dynamic_dm_parameter_def Let_def)

lemma add_plain_parameters:
  "dm_parameters (add_plain_dm_parameter s opt) =
     dm_parameters s @ (if opt \<in> set (dm_parameters s) then [] else [opt])"
  by (simp add: add_plain_dm_parameter_def)

text \<open>
  Claim C10. Let a call of \<^verbatim>\<open>add_virtual_device\<close> return. If the VM's \<^verbatim>\<open>vm_type\<close> is
  \<^verbatim>\<open>RTVM\<close> and the kind contains \<^verbatim>\<open>virtio\<close>, the parameter \<^verbatim>\<open>--virtio_poll 1000000\<close> is
  in the list afterwards, as often as before when it was there and once when it was not,
  and the list is the list with that parameter ensured, followed by the device's own
  parameter where the call appends it: the parameter of the device comes after. For a
  VM of any other type the call leaves the number of occurrences of
  \<^verbatim>\<open>--virtio_poll 1000000\<close> as it was.
\<close>

theorem virtio_poll_for_rtvm:
  assumes "add_virtual_device s kind vbdf options = Inr s'"
  shows "(vm_type (script_vm_scenario_etree s) = Some ''RTVM'' \<and> py_in_str ''virtio'' kind \<longrightarrow>
            ''--virtio_poll 1000000'' \<in> set (dm_parameters s')
            \<and> count_list (dm_parameters s') ''--virtio_poll 1000000'' =
                (if ''--virtio_poll 1000000'' \<in> set (dm_parameters s)
                 then count_list (dm_parameters s) ''--virtio_poll 1000000'' else 1)
            \<and> (\<exists>slot. dm_parameters s' =
                  dm_parameters (add_plain_dm_parameter s ''--virtio_poll 1000000'')
                  @ (if virtual_device_parameter slot kind options
                        \<in> set (dm_parameters (add_plain_dm_parameter s ''--virtio_poll 1000000''))
                     then [] else [virtual_device_parameter slot kind options])))
         \<and> (vm_type (script_vm_scenario_etree s) \<noteq> Some ''RTVM'' \<longrightarrow>
            count_list (dm_parameters s') ''--virtio_poll 1000000'' =
              count_list (dm_parameters s) ''--virtio_poll 1000000'')"
proof -
  let ?poll = "''--virtio_poll 1000000''"
  let ?s1 = "if py_in_str ''virtio'' kind \<and> vm_type (script_vm_scenario_etree s) = Some ''RTVM''
             then add_plain_dm_parameter s ?poll else s"
  obtain slot rest where s': "s' = add_dynamic_dm_parameter (?s1\<lparr>free_slots := rest\<rparr>)
      ''add_virtual_device'' (slot @ '' '' @ kind @ '' '' @ options)"
    using assms unfolding add_virtual_device_def Let_def
    by (auto split: option.splits sum.splits prod.splits)
  have count: "count_list (dm_parameters s') ?poll = count_list (dm_parameters ?s1) ?poll"
    unfolding s' using add_dynamic_keeps_count [of ?poll, OF dynamic_is_not_virtio_poll [symmetric]]
    by simp
  have params: "dm_parameters s' = dm_parameters ?s1
      @ (if virtual_device_parameter slot kind options \<in> set (dm_parameters ?s1) then []
         else [virtual_device_parameter slot kind options])"
    unfolding s' virtual_device_parameter_def by (simp add: add_dynamic_parameters)
  show ?thesis
  proof (intro conjI impI)
    assume rt: "vm_type (script_vm_scenario_etree s) = Some ''RTVM'' \<and> py_in_str ''virtio'' kind"
    then have s1: "?s1 = add_plain_dm_parameter s ?poll" by simp
    show "?poll \<in> set (dm_parameters s')"
      unfolding params s1 by (simp add: add_plain_parameters)
    show "count_list (dm_parameters s') ?poll =
          (if ?poll \<in> set (dm_parameters s) then count_list (dm_parameters s) ?poll else 1)"
      unfolding count s1 by (simp add: add_plain_parameters count_list_snoc count_list_absent)
    show "\<exists>slot. dm_parameters s' = dm_parameters (add_plain_dm_parameter s ?poll)
            @ (if virtual_device_parameter slot kind options
                  \<in> set (dm_parameters (add_plain_dm_parameter s ?poll))
               then [] else [virtual_device_parameter slot kind options])"
      using params unfolding s1 by blast
  next
    assume "vm_type (script_vm_scenario_etree s) \<noteq> Some ''RTVM''"
    then have "?s1 = s" by simp
    then show "count_list (dm_parameters s') ?poll = count_list (dm_parameters s) ?poll"
      using count by simp
  qed
qed

text \<open>
  The theorem at a fresh script of a real-time VM and at one of a standard VM, for a
  \<^verbatim>\<open>virtio-blk\<close> device.
\<close>

theorem virtio_poll_for_rtvm_witness:
  "add_virtual_device
      (LaunchScript_init example_board ''POST_RT_VM1'' (example_vm\<lparr>vm_type := Some ''RTVM''\<rparr>))
      ''virtio-blk'' None ''/dev/sda'' =
    Inr (add_dynamic_dm_parameter
          ((add_plain_dm_parameter
             (LaunchScript_init example_board ''POST_RT_VM1''
                (example_vm\<lparr>vm_type := Some ''RTVM''\<rparr>))
             ''--virtio_poll 1000000'')\<lparr>free_slots := tl VirtualBDFAllocator_init\<rparr>)
          ''add_virtual_device'' ''3 virtio-blk /dev/sda'')
   \<and> dm_parameters (add_dynamic_dm_parameter
          ((add_plain_dm_parameter
             (LaunchScript_init example_board ''POST_RT_VM1''
                (example_vm\<lparr>vm_type := Some ''RTVM''\<rparr>))
             ''--virtio_poll 1000000'')\<lparr>free_slots := tl VirtualBDFAllocator_init\<rparr>)
          ''add_virtual_device'' ''3 virtio-blk /dev/sda'') =
       [''--virtio_poll 1000000'', virtual_device_parameter ''3'' ''virtio-blk'' ''/dev/sda'']
   \<and> add_virtual_device (LaunchScript_init example_board ''POST_STD_VM1'' example_vm)
      ''virtio-blk'' None ''/dev/sda'' =
    Inr (add_dynamic_dm_parameter
          ((LaunchScript_init example_board ''POST_STD_VM1'' example_vm)
             \<lparr>free_slots := tl VirtualBDFAllocator_init\<rparr>)
          ''add_virtual_device'' ''3 virtio-blk /dev/sda'')
   \<and> count_list (dm_parameters (add_dynamic_dm_parameter
          ((LaunchScript_init example_board ''POST_STD_VM1'' example_vm)
             \<lparr>free_slots := tl VirtualBDFAllocator_init\<rparr>)
          ''add_virtual_device'' ''3 virtio-blk /dev/sda'')) ''--virtio_poll 1000000'' = 0"
proof -
  let ?rt = "LaunchScript_init example_board ''POST_RT_VM1'' (example_vm\<lparr>vm_type := Some ''RTVM''\<rparr>)"
  let ?rt' = "add_dynamic_dm_parameter
          ((add_plain_dm_parameter ?rt ''--virtio_poll 1000000'')
             \<lparr>free_slots := tl VirtualBDFAllocator_init\<rparr>)
          ''add_virtual_device'' ''3 virtio-blk /dev/sda''"
  let ?std = "LaunchScript_init example_board ''POST_STD_VM1'' example_vm"
  let ?std' = "add_dynamic_dm_parameter (?std\<lparr>free_slots := tl VirtualBDFAllocator_init\<rparr>)
          ''add_virtual_device'' ''3 virtio-blk /dev/sda''"
  have three: "py_str_int 3 = ''3''" by (simp add: py_str_int_def)
  have virtio: "py_in_str ''virtio'' ''virtio-blk''" by (simp add: py_startswith_def)
  have rt_type: "vm_type (script_vm_scenario_etree ?rt) = Some ''RTVM''"
    by (simp add: LaunchScript_init_def)
  have std_type: "vm_type (script_vm_scenario_etree ?std) \<noteq> Some ''RTVM''"
    by (simp add: LaunchScript_init_def example_vm_def)
  have rt: "add_virtual_device ?rt ''virtio-blk'' None ''/dev/sda'' = Inr ?rt'"
    unfolding add_virtual_device_def Let_def
    by (simp add: py_startswith_def rt_type three get_virtual_bdf_def is_vga_device_def has_igd_option_def
        add_plain_dm_parameter_def LaunchScript_init_def fresh_pool)
  have std: "add_virtual_device ?std ''virtio-blk'' None ''/dev/sda'' = Inr ?std'"
    unfolding add_virtual_device_def Let_def
    using std_type
    by (simp add: three get_virtual_bdf_def is_vga_device_def has_igd_option_def
        LaunchScript_init_def fresh_pool)
  have params: "dm_parameters ?rt' =
      [''--virtio_poll 1000000'', virtual_device_parameter ''3'' ''virtio-blk'' ''/dev/sda'']"
    by (simp add: add_dynamic_parameters add_plain_parameters LaunchScript_init_def
        virtual_device_parameter_def dynamic_is_not_virtio_poll)
  have none: "count_list (dm_parameters ?std') ''--virtio_poll 1000000'' = 0"
    using virtio_poll_for_rtvm [OF std] std_type
    by (simp add: LaunchScript_init_def)
  have "''--virtio_poll 1000000'' \<in> set (dm_parameters ?rt')"
    using virtio_poll_for_rtvm [OF rt] rt_type virtio by blast
  then show ?thesis using rt std params none by blast
qed

text \<open>
  Claim C4, as amended. Let \<^verbatim>\<open>add_passthru_device\<close> resolve the slot \<open>vbdf\<close>. The call
  returns, and the list of parameters is the list before with the device's own parameter
  appended unless it was there. If \<open>vbdf\<close> is not 2, the interrupt storm monitor parameter
  is in the list afterwards: appended right after when the list did not have it, and left
  where it stands when the list had it (the source enables the monitoring once, for a VM
  that has any passthrough device other than the GPU). If \<open>vbdf\<close> is 2, the call adds no
  interrupt storm monitor parameter.
\<close>

theorem storm_monitor_once_per_vm:
  assumes "passthru_vbdf s bus dev fn options = Inr (vbdf, rest)"
  shows "\<exists>s'. add_passthru_device s bus dev fn options = Inr s'
     \<and> (let p = passthru_parameter vbdf bus dev fn (passthru_options s bus dev fn options);
             before = dm_parameters s;
             with_p = before @ (if p \<in> set before then [] else [p])
         in (vbdf \<noteq> 2 \<longrightarrow>
               storm_monitor_parameter \<in> set (dm_parameters s')
               \<and> (storm_monitor_parameter \<notin> set before \<longrightarrow>
                    dm_parameters s' = with_p @ [storm_monitor_parameter])
               \<and> (storm_monitor_parameter \<in> set before \<longrightarrow> dm_parameters s' = with_p))
          \<and> (vbdf = 2 \<longrightarrow>
               dm_parameters s' = with_p
               \<and> count_list (dm_parameters s') storm_monitor_parameter =
                   count_list before storm_monitor_parameter))"
proof -
  let ?p = "passthru_parameter vbdf bus dev fn (passthru_options s bus dev fn options)"
  let ?s1 = "add_dynamic_dm_parameter (s\<lparr>free_slots := rest\<rparr>) ''add_passthrough_device''
     (py_str_int vbdf @ '' 0000:'' @ py_format_02x bus @ '':'' @ py_format_02x dev @ ''.''
        @ py_str_int fn @ '' '' @ passthru_options s bus dev fn options)"
  let ?s' = "if vbdf \<noteq> 2
             then add_dynamic_dm_parameter ?s1 ''add_interrupt_storm_monitor'' ''10000 10 1 100''
             else ?s1"
  have run: "add_passthru_device s bus dev fn options = Inr ?s'"
    unfolding add_passthru_device_def Let_def using assms by simp
  have p1: "dm_parameters ?s1 = dm_parameters s @ (if ?p \<in> set (dm_parameters s) then [] else [?p])"
    unfolding passthru_parameter_def by (simp add: add_dynamic_parameters)
  have neq: "?p \<noteq> storm_monitor_parameter"
    by (rule passthru_is_not_storm_monitor)
  have storm: "dm_parameters (add_dynamic_dm_parameter ?s1 ''add_interrupt_storm_monitor''
        ''10000 10 1 100'') =
      dm_parameters ?s1 @ (if storm_monitor_parameter \<in> set (dm_parameters ?s1) then []
                           else [storm_monitor_parameter])"
    unfolding storm_monitor_parameter_def by (rule add_dynamic_parameters)
  have mem: "storm_monitor_parameter \<in> set (dm_parameters ?s1)
      \<longleftrightarrow> storm_monitor_parameter \<in> set (dm_parameters s)"
    unfolding p1 using neq by auto
  have "let p = ?p; before = dm_parameters s;
             with_p = before @ (if p \<in> set before then [] else [p])
         in (vbdf \<noteq> 2 \<longrightarrow>
               storm_monitor_parameter \<in> set (dm_parameters ?s')
               \<and> (storm_monitor_parameter \<notin> set before \<longrightarrow>
                    dm_parameters ?s' = with_p @ [storm_monitor_parameter])
               \<and> (storm_monitor_parameter \<in> set before \<longrightarrow> dm_parameters ?s' = with_p))
          \<and> (vbdf = 2 \<longrightarrow>
               dm_parameters ?s' = with_p
               \<and> count_list (dm_parameters ?s') storm_monitor_parameter =
                   count_list before storm_monitor_parameter)"
    unfolding Let_def
  proof (intro conjI impI)
    assume v: "vbdf \<noteq> 2"
    show "storm_monitor_parameter \<in> set (dm_parameters ?s')"
      using v storm by auto
    show "dm_parameters ?s' = (dm_parameters s @ (if ?p \<in> set (dm_parameters s) then [] else [?p]))
        @ [storm_monitor_parameter]" if "storm_monitor_parameter \<notin> set (dm_parameters s)"
      using v that mem storm p1 by simp
    show "dm_parameters ?s' = dm_parameters s @ (if ?p \<in> set (dm_parameters s) then [] else [?p])"
      if "storm_monitor_parameter \<in> set (dm_parameters s)"
      using v that mem storm p1 by simp
  next
    assume v: "vbdf = 2"
    show "dm_parameters ?s' = dm_parameters s @ (if ?p \<in> set (dm_parameters s) then [] else [?p])"
      using v p1 by simp
    show "count_list (dm_parameters ?s') storm_monitor_parameter =
          count_list (dm_parameters s) storm_monitor_parameter"
      using v p1 neq by (simp add: count_list_snoc)
  qed
  then show ?thesis using run by blast
qed

theorem storm_monitor_once_per_vm_witness:
  "passthru_vbdf (LaunchScript_init example_board ''POST_STD_VM1'' example_vm) 0 31 6 [] =
     Inr (3, tl VirtualBDFAllocator_init)
   \<and> map_sum id dm_parameters
       (add_passthru_device (LaunchScript_init example_board ''POST_STD_VM1'' example_vm)
          0 31 6 []) =
     Inr [passthru_parameter 3 0 31 6 [], storm_monitor_parameter]"
proof -
  let ?s = "LaunchScript_init example_board ''POST_STD_VM1'' example_vm"
  have h: "passthru_vbdf ?s 0 31 6 [] = Inr (3, tl VirtualBDFAllocator_init)"
    by code_simp
  have opts: "passthru_options ?s 0 31 6 [] = []"
    by code_simp
  have empty: "dm_parameters ?s = []"
    by (simp add: LaunchScript_init_def)
  obtain s' where run: "add_passthru_device ?s 0 31 6 [] = Inr s'"
    and params: "dm_parameters s' = [passthru_parameter 3 0 31 6 [], storm_monitor_parameter]"
    using storm_monitor_once_per_vm [OF h] unfolding Let_def opts empty by auto
  show ?thesis using h run params by simp
qed

text \<open>
  Claim C4 as stated fails for the second device: two passthrough devices other than the
  GPU, entered one after the other on a fresh script, get the slots 3 and 4, and the
  parameter of the second is the last of the list, with no interrupt storm monitor
  parameter after it.
\<close>

theorem second_passthru_device_has_no_storm_monitor:
  "map_sum id dm_parameters
     (for_each passthru_entry [''00:1f.6'', ''00:14.0'']
        (LaunchScript_init example_board ''POST_STD_VM1'' example_vm)) =
   Inr [passthru_parameter 3 0 31 6 [], storm_monitor_parameter, passthru_parameter 4 0 20 0 []]"
  by code_simp

subsection \<open>Passthrough entries\<close>

lemma unmatched_entry_is_skipped:
  "bdf_regex_match text = None \<Longrightarrow> passthru_entry text s = Inr s"
  by (simp add: passthru_entry_def)

text \<open>
  Claim C5. The entry \<^verbatim>\<open>00:1fx6\<close> has an \<^verbatim>\<open>x\<close> where the pattern of the claim has a
  dot. The pattern of the source matches it, since its dot is not escaped, and the loop
  emits the passthrough device 00:1f.6 at slot 3 with its interrupt storm monitor
  parameter.
\<close>

theorem entry_without_dot_is_emitted:
  "bdf_regex_match ''00:1fx6'' = Some (''00'', ''1f'', ''6'')
   \<and> map_sum id dm_parameters
       (for_each passthru_entry [''00:1fx6'']
          (LaunchScript_init example_board ''POST_STD_VM1'' example_vm)) =
     Inr [passthru_parameter 3 0 31 6 [], storm_monitor_parameter]"
  by code_simp

subsection \<open>The CPUs of a VM\<close>










subsection \<open>The last parameter\<close>

lemma vm_name_concludes_parameters:
  assumes "name \<notin> set (dm_parameters s)" "name \<noteq> ''--rtvm''" "name \<noteq> ''--lapic_pt''"
    "name \<noteq> dynamic_dm_parameter ''add_logger_settings'' ''console=4 kmsg=3 disk=5''"
  shows "last (dm_parameters (conclude_dm_parameters vm name s)) = name"
  using assms
  by (simp add: conclude_dm_parameters_def Let_def add_plain_parameters add_dynamic_parameters)

text \<open>
  Claim C8. A real-time VM named \<^verbatim>\<open>--rtvm\<close>: its name is in the list already when
  \<^verbatim>\<open>add_plain_dm_parameter\<close> is called with it, so nothing is appended, and the list ends
  with the logger settings.
\<close>

theorem vm_name_is_not_last:
  "map_sum id (dm_parameters \<circ> fst)
     (generate_for_one_vm example_board (Some example_hv)
        (example_vm\<lparr>vm_name := Some ''--rtvm'', vm_type := Some ''RTVM''\<rparr>) 1) =
   Inr [''-m 2048M'', virtual_device_parameter ''0:0'' ''hostbridge'' [], ''--rtvm'',
        dynamic_dm_parameter ''add_logger_settings'' ''console=4 kmsg=3 disk=5'']"
  by code_simp

subsection \<open>The status of \<^verbatim>\<open>main\<close>\<close>

text \<open>
  Claim C9. A scenario without a service VM and without post-launched VMs: the test
  before \<^verbatim>\<open>return 1\<close> is false, and \<^verbatim>\<open>int(service_vm_id)\<close> raises \<^verbatim>\<open>TypeError\<close> on
  \<^verbatim>\<open>None\<close>. \<^verbatim>\<open>main\<close> returns no status.
\<close>

theorem main_raises_without_service_vm:
  "main env board \<lparr>service_vm_id = None, service_vm_name = name, hv_scenario_etree = hv,
      post_vms = [], pre_launched_pcpu_ids = pre\<rparr> user_vm_id out_dir = Inl TypeError"
  by (simp add: main_def py_int_of_def)

end
